theory Spec2Isabelle
  imports Complex_Main
begin

section \<open>The JavaScript runtime operations the function relies on\<close>

text \<open>
  The archive function (\<^verbatim>\<open>src/funcs/log-archive.lambda.ts\<close>) uses a handful of
  built-in string and \<^verbatim>\<open>Date\<close> operations. They are modelled here by executable
  functions: strings are character lists, a time value is an integer number of
  milliseconds since the epoch, and the host's time zone is a fixed offset
  \<open>tza\<close> in milliseconds (\<open>0\<close> for UTC), so that local time is \<open>t + tza\<close>.
\<close>

subsection \<open>Strings\<close>

text \<open>\<^verbatim>\<open>s.split(c)\<close> for a one-character separator: always at least one field.\<close>

fun split_on :: "char \<Rightarrow> string \<Rightarrow> string list" where
  "split_on c [] = [[]]"
| "split_on c (x # xs) =
     (if x = c then [] # split_on c xs
      else (case split_on c xs of [] \<Rightarrow> [[x]] | p # ps \<Rightarrow> (x # p) # ps))"

text \<open>\<^verbatim>\<open>s.replace(/c/g, r)\<close>: every occurrence of the character \<open>c\<close> becomes \<open>r\<close>.\<close>

fun replace_all :: "char \<Rightarrow> string \<Rightarrow> string \<Rightarrow> string" where
  "replace_all c r [] = []"
| "replace_all c r (x # xs) = (if x = c then r @ replace_all c r xs else x # replace_all c r xs)"

text \<open>\<^verbatim>\<open>s.replace(/^c/, '')\<close>: one occurrence of \<open>c\<close> at the start is removed.\<close>

fun remove_leading :: "char \<Rightarrow> string \<Rightarrow> string" where
  "remove_leading c [] = []"
| "remove_leading c (x # xs) = (if x = c then xs else x # xs)"

text \<open>\<^verbatim>\<open>s.slice(-2)\<close>: the last two characters (the whole string when it is shorter).\<close>

definition slice_last2 :: "string \<Rightarrow> string" where
  "slice_last2 s = drop (length s - 2) s"

text \<open>Decimal rendering of a number, as string concatenation and template literals do.\<close>

fun string_of_nat :: "nat \<Rightarrow> string" where
  "string_of_nat n =
     (if n < 10 then [''0123456789'' ! n]
      else string_of_nat (n div 10) @ [''0123456789'' ! (n mod 10)])"

declare string_of_nat.simps [simp del]

definition string_of_int :: "int \<Rightarrow> string" where
  "string_of_int i = (if i < 0 then CHR ''-'' # string_of_nat (nat (- i)) else string_of_nat (nat i))"

text \<open>Truthiness of an optional string: \<^verbatim>\<open>undefined\<close> and \<^verbatim>\<open>''\<close> are falsy.\<close>

fun truthy :: "string option \<Rightarrow> bool" where
  "truthy None = False"
| "truthy (Some s) = (s \<noteq> [])"

subsection \<open>Dates\<close>

definition msPerDay :: int where
  "msPerDay = 86400000"

text \<open>Day number of a time value (floor division, also before the epoch).\<close>

definition Day :: "int \<Rightarrow> int" where
  "Day t = t div msPerDay"

text \<open>Proleptic Gregorian date \<open>(year, month 1..12, day 1..31)\<close> of a day number.\<close>

definition civil_from_days :: "int \<Rightarrow> int \<times> int \<times> int" where
  "civil_from_days z0 =
     (let z = z0 + 719468;
          era = z div 146097;
          doe = z mod 146097;
          yoe = (doe - doe div 1460 + doe div 36524 - doe div 146096) div 365;
          doy = doe - (365 * yoe + yoe div 4 - yoe div 100);
          mp = (5 * doy + 2) div 153;
          d = doy - (153 * mp + 2) div 5 + 1;
          m = (if mp < 10 then mp + 3 else mp - 9);
          y = yoe + era * 400 + (if m \<le> 2 then 1 else 0)
      in (y, m, d))"

text \<open>Day number of the first day of month \<open>m\<close> (1..12) of year \<open>y\<close>, plus \<open>d - 1\<close>.\<close>

definition days_from_civil :: "int \<Rightarrow> int \<Rightarrow> int \<Rightarrow> int" where
  "days_from_civil y0 m d =
     (let y = (if m \<le> 2 then y0 - 1 else y0);
          era = y div 400;
          yoe = y mod 400;
          doy = (153 * (if m > 2 then m - 3 else m + 9) + 2) div 5 + d - 1;
          doe = yoe * 365 + yoe div 4 - yoe div 100 + doy
      in era * 146097 + doe - 719468)"

text \<open>The local-time getters of a \<^verbatim>\<open>Date\<close> holding the time value \<open>t\<close>.\<close>

definition getFullYear :: "int \<Rightarrow> int \<Rightarrow> int" where
  "getFullYear tza t = fst (civil_from_days (Day (t + tza)))"

definition getMonth :: "int \<Rightarrow> int \<Rightarrow> int" where
  "getMonth tza t = fst (snd (civil_from_days (Day (t + tza)))) - 1"

definition getDate :: "int \<Rightarrow> int \<Rightarrow> int" where
  "getDate tza t = snd (snd (civil_from_days (Day (t + tza))))"

text \<open>The UTC getters read the same fields of the time value itself.\<close>

definition getUTCFullYear :: "int \<Rightarrow> int" where
  "getUTCFullYear t = fst (civil_from_days (Day t))"

definition getUTCMonth :: "int \<Rightarrow> int" where
  "getUTCMonth t = fst (snd (civil_from_days (Day t))) - 1"

definition getUTCDate :: "int \<Rightarrow> int" where
  "getUTCDate t = snd (snd (civil_from_days (Day t)))"

text \<open>
  \<^verbatim>\<open>new Date(year, month, date, 0, 0, 0, 0).getTime()\<close>: local midnight of the given
  local date, with the month counted from 0 and a year in 0..99 taken as 19xx.
\<close>

definition local_midnight_time :: "int \<Rightarrow> int \<Rightarrow> int \<Rightarrow> int \<Rightarrow> int" where
  "local_midnight_time tza year month date =
     (let yr = (if 0 \<le> year \<and> year \<le> 99 then 1900 + year else year)
      in (days_from_civil yr (month + 1) 1 + date - 1) * msPerDay - tza)"

section \<open>The archive function\<close>

subsection \<open>Errors and inputs\<close>

text \<open>
  The three error classes the function throws, each with its message. The plain
  \<^verbatim>\<open>Error\<close> is thrown in two places, told apart by the message: a create request that
  returned no task identifier, and an export task that failed after the retry. A
  \<^verbatim>\<open>TypeError\<close> is what the runtime throws when a method is called on a value that
  does not have it.
\<close>

datatype error =
    EnvironmentVariableError string
  | InputVariableError string
  | Error string
  | TypeError string

text \<open>
  The event payload is a JSON object, and the declared types of its properties are not
  checked at run time: a property holds any JSON value.
\<close>

datatype js_value =
    JNull
  | JBool bool
  | JNumber real
  | JString string
  | JArray "js_value list"
  | JObject "(string \<times> js_value) list"

text \<open>Truthiness of a value, as \<^verbatim>\<open>!v\<close> tests it.\<close>

fun js_truthy :: "js_value \<Rightarrow> bool" where
  "js_truthy JNull = False"
| "js_truthy (JBool b) = b"
| "js_truthy (JNumber x) = (x \<noteq> 0)"
| "js_truthy (JString s) = (s \<noteq> [])"
| "js_truthy (JArray vs) = True"
| "js_truthy (JObject fs) = True"

text \<open>
  The three properties the handler reads. A property is \<open>None\<close> when the object does
  not have it (reading it gives \<^verbatim>\<open>undefined\<close>, which is falsy) and \<open>Some v\<close> when
  it is present with the value \<open>v\<close>.
\<close>

record event_input =
  tagKey :: "js_value option"
  tagValues :: "js_value option"
  TargetLogGroupName :: "js_value option"

fun property_truthy :: "js_value option \<Rightarrow> bool" where
  "property_truthy None = False"
| "property_truthy (Some v) = js_truthy v"

text \<open>\<^verbatim>\<open>Array.isArray\<close> of a property.\<close>

fun isArray :: "js_value option \<Rightarrow> bool" where
  "isArray (Some (JArray vs)) = True"
| "isArray v = False"

definition isSchedulerInput :: "event_input \<Rightarrow> bool" where
  "isSchedulerInput event =
     (tagKey event \<noteq> None \<and> tagValues event \<noteq> None \<and> isArray (tagValues event))"

definition getLogGroupNameFromArn :: "string \<Rightarrow> string" where
  "getLogGroupNameFromArn arn =
     (let parts = split_on CHR '':'' arn
      in if 6 < length parts then parts ! 6 else arn)"

definition RUNNING_WAIT_SECONDS :: nat where
  "RUNNING_WAIT_SECONDS = 10"

definition PENDING_WAIT_SECONDS :: nat where
  "PENDING_WAIT_SECONDS = 3"

subsection \<open>External services and the log of calls\<close>

record create_export_task_command =
  destination :: string
  logGroupName :: string
  from_time :: int
  to_time :: int
  destinationPrefix :: string

text \<open>
  The tag filter of a discovery request carries \<open>event.tagKey\<close> and the items of
  \<open>event.tagValues\<close> as they are in the event.
\<close>

record get_resources_command =
  ResourceTypeFilters :: "string list"
  TagFilterKey :: js_value
  TagFilterValues :: "js_value list"
  RequestPaginationToken :: "string option"

text \<open>A page of the tagging API: the \<^verbatim>\<open>ResourceARN\<close> of each mapping, and the next token.\<close>

record get_resources_result =
  ResourceTagMappingList :: "string option list option"
  PaginationToken :: "string option"

datatype export_task_status = ExportTaskStatus (code: "string option")

datatype export_task = ExportTask (status: "export_task_status option")

text \<open>
  Everything the function does to the outside world, in order: the three kinds of
  service request and the durable waits (name and seconds).
\<close>

datatype call =
    GetResources get_resources_command
  | CreateExportTask create_export_task_command
  | DescribeExportTasks string
  | Wait string nat

text \<open>
  The world the function runs in. Each service answers as a function of the calls made
  so far and of the request, which covers any deterministic service; the clock gives
  \<^verbatim>\<open>new Date()\<close> at that point of the run.
\<close>

record world =
  BUCKET_NAME :: "string option"
  LocalTZA :: int
  clock :: "call list \<Rightarrow> int"
  getResources :: "call list \<Rightarrow> get_resources_command \<Rightarrow> get_resources_result"
  createExportTask :: "call list \<Rightarrow> create_export_task_command \<Rightarrow> string option"
  describeExportTasks :: "call list \<Rightarrow> string \<Rightarrow> export_task list option"

subsection \<open>The export window and the destination prefix\<close>

definition safeLogGroupName :: "string \<Rightarrow> string" where
  "safeLogGroupName name =
     replace_all CHR ''.'' ''--'' (remove_leading CHR ''-'' (replace_all CHR ''/'' ''-'' name))"

definition targetFromTime :: "int \<Rightarrow> int \<Rightarrow> int" where
  "targetFromTime tza now =
     local_midnight_time tza (getFullYear tza now) (getMonth tza now) (getDate tza now)
       - (1000 * 60 * 60 * 24)"

definition targetToTime :: "int \<Rightarrow> int \<Rightarrow> int" where
  "targetToTime tza now = targetFromTime tza now + (1000 * 60 * 60 * 24) + 999"

definition target_y :: "int \<Rightarrow> int \<Rightarrow> string" where
  "target_y tza now = string_of_int (getFullYear tza (targetFromTime tza now))"

definition target_m :: "int \<Rightarrow> int \<Rightarrow> string" where
  "target_m tza now =
     slice_last2 (''00'' @ string_of_int (getMonth tza (targetFromTime tza now) + 1))"

definition target_d :: "int \<Rightarrow> int \<Rightarrow> string" where
  "target_d tza now =
     slice_last2 (''00'' @ string_of_int (getDate tza (targetFromTime tza now)))"

definition export_command :: "int \<Rightarrow> int \<Rightarrow> string \<Rightarrow> string \<Rightarrow> create_export_task_command" where
  "export_command tza now bucketName name =
     \<lparr> destination = bucketName,
       logGroupName = name,
       from_time = targetFromTime tza now,
       to_time = targetToTime tza now,
       destinationPrefix =
         safeLogGroupName name @ ''/'' @ target_y tza now @ ''/'' @ target_m tza now
           @ ''/'' @ target_d tza now @ ''/'' \<rparr>"

definition describe_status :: "export_task list option \<Rightarrow> string" where
  "describe_status exportTasks =
     (case exportTasks of
        None \<Rightarrow> ''PENDING''
      | Some [] \<Rightarrow> ''PENDING''
      | Some (t # _) \<Rightarrow>
          (case status t of
             None \<Rightarrow> ''PENDING''
           | Some s \<Rightarrow> (case code s of None \<Rightarrow> ''PENDING'' | Some c \<Rightarrow> c)))"

subsection \<open>The export task controller\<close>

text \<open>
  \<open>createExportLogGroup\<close> issues the create request and enters the polling loop
  \<open>poll\<close>. The loop has no bound of its own, so the model carries fuel, one unit per
  poll: \<open>None\<close> means that the run has not returned within the fuel. A result is the
  value returned or the error thrown, with the log of calls extended.
\<close>

type_synonym 'a outcome = "((error + 'a) \<times> call list) option"

fun createExportLogGroup ::
      "nat \<Rightarrow> world \<Rightarrow> string \<Rightarrow> string \<Rightarrow> string \<Rightarrow> bool \<Rightarrow> call list \<Rightarrow> unit outcome"
  and poll ::
      "nat \<Rightarrow> world \<Rightarrow> string \<Rightarrow> string \<Rightarrow> string \<Rightarrow> bool \<Rightarrow> string \<Rightarrow> call list \<Rightarrow> unit outcome"
where
  "createExportLogGroup fuel w stepName bucketName name retried h =
     (let cmd = export_command (LocalTZA w) (clock w h) bucketName name;
          createResult = createExportTask w h cmd;
          h1 = h @ [CreateExportTask cmd]
      in case createResult of
           None \<Rightarrow>
             Some (Inl (Error (''CreateExportTask did not return taskId for log group: '' @ name)), h1)
         | Some taskId \<Rightarrow>
             if taskId = [] then
               Some (Inl (Error (''CreateExportTask did not return taskId for log group: '' @ name)), h1)
             else poll fuel w stepName bucketName name retried taskId h1)"
| "poll 0 w stepName bucketName name retried taskId h = None"
| "poll (Suc fuel) w stepName bucketName name retried taskId h =
     (let st = describe_status (describeExportTasks w h taskId);
          h1 = h @ [DescribeExportTasks taskId]
      in if st = ''COMPLETED'' \<or> st = ''CANCELLED'' \<or> st = ''PENDING_CANCEL'' then
           Some (Inr (), h1)
         else if st = ''FAILED'' then
           (if \<not> retried then
              createExportLogGroup fuel w (stepName @ ''-retry'') bucketName name True
                (h1 @ [Wait (stepName @ ''-retry-wait'') PENDING_WAIT_SECONDS])
            else
              Some (Inl (Error (''Export task '' @ taskId @ '' failed for log group: '' @ name)), h1))
         else if st = ''RUNNING'' then
           poll fuel w stepName bucketName name retried taskId
             (h1 @ [Wait (stepName @ ''-running-wait'') RUNNING_WAIT_SECONDS])
         else
           poll fuel w stepName bucketName name retried taskId
             (h1 @ [Wait (stepName @ ''-pending-wait'') PENDING_WAIT_SECONDS]))"

declare createExportLogGroup.simps [simp del] poll.simps [simp del]

subsection \<open>The handler\<close>

text \<open>
  The paginated discovery inside the step \<^verbatim>\<open>get-resources\<close>: the inner
  \<^verbatim>\<open>for\<close> loop pushing every truthy \<^verbatim>\<open>ResourceARN\<close>, and the
  \<^verbatim>\<open>do ... while\<close> loop over the pages, which sends the current token with each
  request; one unit of fuel per page.
\<close>

fun push_arns :: "string list \<Rightarrow> string option list \<Rightarrow> string list" where
  "push_arns arns [] = arns"
| "push_arns arns (m # ms) = push_arns (if truthy m then arns @ [the m] else arns) ms"

fun get_resources_loop ::
      "nat \<Rightarrow> world \<Rightarrow> js_value \<Rightarrow> js_value list \<Rightarrow> string list \<Rightarrow> string option \<Rightarrow> call list
        \<Rightarrow> (string list \<times> call list) option"
where
  "get_resources_loop 0 w key vals arns paginationToken h = None"
| "get_resources_loop (Suc fuel) w key vals arns paginationToken h =
     (let cmd = \<lparr> ResourceTypeFilters = [''logs:log-group''],
                  TagFilterKey = key,
                  TagFilterValues = vals,
                  RequestPaginationToken = paginationToken \<rparr>;
          result = getResources w h cmd;
          h1 = h @ [GetResources cmd];
          list = (case ResourceTagMappingList result of None \<Rightarrow> [] | Some l \<Rightarrow> l);
          arns1 = push_arns arns list;
          paginationToken1 = PaginationToken result
      in if truthy paginationToken1
         then get_resources_loop fuel w key vals arns1 paginationToken1 h1
         else Some (arns1, h1))"

declare get_resources_loop.simps [simp del]

text \<open>
  The durable SDK's \<^verbatim>\<open>context.map\<close> is not part of the repository: it is a parameter
  \<open>ctx_map\<close>, given the per-item function (index, item, log of calls) and the items,
  and returning the success count or the error it throws.
\<close>

type_synonym ctx_map =
  "(nat \<Rightarrow> js_value \<Rightarrow> call list \<Rightarrow> unit outcome) \<Rightarrow> js_value list \<Rightarrow> call list \<Rightarrow> nat outcome"

text \<open>The items of \<open>event.tagValues\<close> once the type guard has established an array.\<close>

fun array_items :: "js_value option \<Rightarrow> js_value list" where
  "array_items (Some (JArray vs)) = vs"
| "array_items v = []"

text \<open>
  The function passed to \<^verbatim>\<open>context.map\<close>: one controller per log group. The
  controller starts with \<^verbatim>\<open>logGroupName.replace(...)\<close>, so an item that is not a
  string makes it throw a \<^verbatim>\<open>TypeError\<close> before any call.
\<close>

definition export_item :: "nat \<Rightarrow> world \<Rightarrow> string \<Rightarrow> nat \<Rightarrow> js_value \<Rightarrow> call list \<Rightarrow> unit outcome" where
  "export_item fuel w bucketName index item h =
     (case item of
        JString name \<Rightarrow>
          createExportLogGroup fuel w (''export-'' @ string_of_nat index) bucketName name False h
      | _ \<Rightarrow> Some (Inl (TypeError ''logGroupName.replace is not a function''), h))"

text \<open>The step \<^verbatim>\<open>get-resources\<close>: all pages, then each identifier mapped to a name.\<close>

definition get_resources_step ::
      "nat \<Rightarrow> world \<Rightarrow> js_value \<Rightarrow> js_value list \<Rightarrow> call list \<Rightarrow> (string list \<times> call list) option"
where
  "get_resources_step fuel w key vals h =
     (case get_resources_loop fuel w key vals [] None h of
        None \<Rightarrow> None
      | Some (arns, h1) \<Rightarrow> Some (map getLogGroupNameFromArn arns, h1))"

definition handler :: "ctx_map \<Rightarrow> nat \<Rightarrow> world \<Rightarrow> event_input \<Rightarrow> nat outcome" where
  "handler ctx_map fuel w event =
     (if \<not> truthy (BUCKET_NAME w) then
        Some (Inl (EnvironmentVariableError ''BUCKET_NAME environment variable not set.''), [])
      else
        let bucketName = the (BUCKET_NAME w)
        in if isSchedulerInput event then
             (if \<not> property_truthy (tagKey event) \<or> length (array_items (tagValues event)) = 0 then
                Some (Inl (InputVariableError
                  ''event must have tagKey and non-empty tagValues when using scheduler input.''), [])
              else
                (case get_resources_step fuel w (the (tagKey event)) (array_items (tagValues event)) [] of
                   None \<Rightarrow> None
                 | Some (logGroupNames, h) \<Rightarrow>
                     ctx_map (export_item fuel w bucketName) (map JString logGroupNames) h))
           else if \<not> property_truthy (TargetLogGroupName event) then
             Some (Inl (InputVariableError
               ''event input TargetLogGroupName (or tagKey/tagValues) not set.''), [])
           else ctx_map (export_item fuel w bucketName) [the (TargetLogGroupName event)] [])"

subsection \<open>Reference forms used to state the properties\<close>

text \<open>
  The sanitised name in one pass over the characters: a leading \<open>/\<close> or \<open>-\<close> is
  dropped, every other \<open>/\<close> is rendered as \<open>-\<close> and every \<open>.\<close> as \<open>--\<close>.
\<close>

fun render :: "char \<Rightarrow> string" where
  "render c = (if c = CHR ''/'' then ''-'' else if c = CHR ''.'' then ''--'' else [c])"

definition sanitize_one_pass :: "string \<Rightarrow> string" where
  "sanitize_one_pass s =
     (case s of
        [] \<Rightarrow> []
      | x # xs \<Rightarrow>
          if x = CHR ''/'' \<or> x = CHR ''-'' then concat (map render xs)
          else concat (map render (x # xs)))"

text \<open>An identifier written from its colon-delimited fields.\<close>

fun join_fields :: "string list \<Rightarrow> string" where
  "join_fields [] = []"
| "join_fields [f] = f"
| "join_fields (f # g # fs) = f @ CHR '':'' # join_fields (g # fs)"

text \<open>The number of create requests in a log of calls.\<close>

fun is_create :: "call \<Rightarrow> bool" where
  "is_create (CreateExportTask cmd) = True"
| "is_create c = False"

definition creates :: "call list \<Rightarrow> nat" where
  "creates h = length (filter is_create h)"

fun is_describe :: "call \<Rightarrow> bool" where
  "is_describe (DescribeExportTasks t) = True"
| "is_describe c = False"

fun is_get_resources :: "call \<Rightarrow> bool" where
  "is_get_resources (GetResources cmd) = True"
| "is_get_resources c = False"

text \<open>A describe response that carries no status code: no list, an empty list, or a
  first task without a status or without a code.\<close>

fun no_status_code :: "export_task list option \<Rightarrow> bool" where
  "no_status_code None = True"
| "no_status_code (Some []) = True"
| "no_status_code (Some (ExportTask None # ts)) = True"
| "no_status_code (Some (ExportTask (Some (ExportTaskStatus c)) # ts)) = (c = None)"

text \<open>The truthy identifiers of one page, in the page's order.\<close>

definition page_arns :: "get_resources_result \<Rightarrow> string list" where
  "page_arns result =
     (case ResourceTagMappingList result of
        None \<Rightarrow> []
      | Some l \<Rightarrow> map the (filter truthy l))"

text \<open>
  \<open>pages_served w key vals token h rs\<close>: asked for log groups with the tag \<open>key\<close>
  and \<open>vals\<close>, first with \<open>token\<close> after the calls \<open>h\<close> and then each time with the
  token of the page before, the tagging service answers with the pages \<open>rs\<close>, of which
  only the last carries no token.
\<close>

fun pages_served ::
      "world \<Rightarrow> js_value \<Rightarrow> js_value list \<Rightarrow> string option \<Rightarrow> call list \<Rightarrow> get_resources_result list \<Rightarrow> bool"
where
  "pages_served w key vals token h [] = False"
| "pages_served w key vals token h [r] =
     (getResources w h
        \<lparr> ResourceTypeFilters = [''logs:log-group''], TagFilterKey = key,
          TagFilterValues = vals, RequestPaginationToken = token \<rparr> = r
      \<and> \<not> truthy (PaginationToken r))"
| "pages_served w key vals token h (r # r' # rs) =
     (getResources w h
        \<lparr> ResourceTypeFilters = [''logs:log-group''], TagFilterKey = key,
          TagFilterValues = vals, RequestPaginationToken = token \<rparr> = r
      \<and> truthy (PaginationToken r)
      \<and> pages_served w key vals (PaginationToken r)
        (h @ [GetResources
               \<lparr> ResourceTypeFilters = [''logs:log-group''], TagFilterKey = key,
                 TagFilterValues = vals, RequestPaginationToken = token \<rparr>]) (r' # rs))"

subsection \<open>Concrete worlds for evaluation\<close>

text \<open>
  A world whose services follow scripts: the n-th create request gets the n-th entry of
  \<open>cs\<close>, the n-th describe request the n-th entry of \<open>ds\<close>, the n-th page request
  the n-th entry of \<open>ps\<close>; past the end of a script the answer is empty. The host is in
  UTC and the clock stands at 2024-03-01T13:01:00Z.
\<close>

definition scripted_world ::
      "string option \<Rightarrow> string option list \<Rightarrow> export_task list option list \<Rightarrow> get_resources_result list \<Rightarrow> world"
where
  "scripted_world bucket cs ds ps =
     \<lparr> BUCKET_NAME = bucket,
       LocalTZA = 0,
       clock = (\<lambda>h. 1709298060000),
       getResources = (\<lambda>h cmd.
          let n = length (filter is_get_resources h)
          in if n < length ps then ps ! n
             else \<lparr> ResourceTagMappingList = None, PaginationToken = None \<rparr>),
       createExportTask = (\<lambda>h cmd.
          let n = length (filter is_create h) in if n < length cs then cs ! n else None),
       describeExportTasks = (\<lambda>h t.
          let n = length (filter is_describe h) in if n < length ds then ds ! n else None) \<rparr>"

text \<open>
  A world whose tagging service reads the request: asked for log groups with the tag
  \<open>key\<close> and \<open>vals\<close>, it serves the page that \<open>pages\<close> lists under the token of
  the request; any other request gets an empty page that asks to continue with the
  token \<open>again\<close>. The other services are those of the scripted world.
\<close>

definition paged_world ::
      "string option \<Rightarrow> string option list \<Rightarrow> export_task list option list \<Rightarrow> js_value \<Rightarrow> js_value list
        \<Rightarrow> (string option \<times> get_resources_result) list \<Rightarrow> world"
where
  "paged_world bucket cs ds key vals pages =
     (scripted_world bucket cs ds [])
       \<lparr> getResources := (\<lambda>h cmd.
            if ResourceTypeFilters cmd = [''logs:log-group''] \<and> TagFilterKey cmd = key
               \<and> TagFilterValues cmd = vals
            then (case map_of pages (RequestPaginationToken cmd) of
                    Some r \<Rightarrow> r
                  | None \<Rightarrow> \<lparr> ResourceTagMappingList = None, PaginationToken = Some ''again'' \<rparr>)
            else \<lparr> ResourceTagMappingList = None, PaginationToken = Some ''again'' \<rparr>) \<rparr>"

definition with_status :: "string \<Rightarrow> export_task list option" where
  "with_status c = Some [ExportTask (Some (ExportTaskStatus (Some c)))]"

text \<open>
  One possible \<^verbatim>\<open>context.map\<close> with \<^verbatim>\<open>maxConcurrency: 1\<close>, used to evaluate whole
  runs: the items in order, a failed item recorded and the next one started, the
  successes counted.
\<close>

fun run_items ::
      "(nat \<Rightarrow> js_value \<Rightarrow> call list \<Rightarrow> unit outcome) \<Rightarrow> nat \<Rightarrow> js_value list \<Rightarrow> nat \<Rightarrow> call list \<Rightarrow> nat outcome"
where
  "run_items f index [] successCount h = Some (Inr successCount, h)"
| "run_items f index (x # xs) successCount h =
     (case f index x h of
        None \<Rightarrow> None
      | Some (Inl e, h1) \<Rightarrow> run_items f (Suc index) xs successCount h1
      | Some (Inr u, h1) \<Rightarrow> run_items f (Suc index) xs (Suc successCount) h1)"

definition sequential_map :: ctx_map where
  "sequential_map f xs h = run_items f 0 xs 0 h"

section \<open>Name sanitizer\<close>

lemma replace_slash_then_dot:
  "replace_all CHR ''.'' ''--'' (replace_all CHR ''/'' ''-'' s) = concat (map render s)"
  by (induction s) simp_all

lemma safeLogGroupName_one_pass: "safeLogGroupName s = sanitize_one_pass s"
  by (cases s) (simp_all add: safeLogGroupName_def sanitize_one_pass_def replace_slash_then_dot)

lemma replace_all_removes: "c \<notin> set r \<Longrightarrow> c \<notin> set (replace_all c r s)"
  by (induction s) simp_all

lemma replace_all_keeps_absent:
  "c \<notin> set r \<Longrightarrow> c \<noteq> d \<Longrightarrow> c \<notin> set s \<Longrightarrow> c \<notin> set (replace_all d r s)"
  by (induction s) simp_all

lemma set_remove_leading: "set (remove_leading c s) \<subseteq> set s"
  by (cases s) auto

lemma safeLogGroupName_no_slash: "CHR ''/'' \<notin> set (safeLogGroupName s)"
proof -
  have "CHR ''/'' \<notin> set (replace_all CHR ''/'' ''-'' s)"
    by (rule replace_all_removes) simp
  then have "CHR ''/'' \<notin> set (remove_leading CHR ''-'' (replace_all CHR ''/'' ''-'' s))"
    using set_remove_leading by blast
  then show ?thesis
    unfolding safeLogGroupName_def by (intro replace_all_keeps_absent) simp_all
qed

lemma safeLogGroupName_no_dot: "CHR ''.'' \<notin> set (safeLogGroupName s)"
  unfolding safeLogGroupName_def by (rule replace_all_removes) simp

text \<open>
  Claim C7. For every name, the sanitised name is the name with every \<open>/\<close> replaced by
  \<open>-\<close>, then one leading \<open>-\<close> stripped, then every \<open>.\<close> replaced by \<open>--\<close>: the
  three replacements of the source compute the one-pass form, the result holds neither
  \<open>/\<close> nor \<open>.\<close>, \<open>/svc/app.name\<close> becomes \<open>svc-app--name\<close>, \<open>a/b/c\<close> becomes
  \<open>a-b-c\<close>, and the empty name stays empty.
\<close>

theorem safeLogGroupName_sanitizes:
  "safeLogGroupName s = sanitize_one_pass s
   \<and> CHR ''/'' \<notin> set (safeLogGroupName s)
   \<and> CHR ''.'' \<notin> set (safeLogGroupName s)
   \<and> safeLogGroupName ''/svc/app.name'' = ''svc-app--name''
   \<and> safeLogGroupName ''a/b/c'' = ''a-b-c''
   \<and> safeLogGroupName [] = []"
proof (intro conjI)
  show "safeLogGroupName s = sanitize_one_pass s"
    by (rule safeLogGroupName_one_pass)
  show "CHR ''/'' \<notin> set (safeLogGroupName s)"
    by (rule safeLogGroupName_no_slash)
  show "CHR ''.'' \<notin> set (safeLogGroupName s)"
    by (rule safeLogGroupName_no_dot)
  show "safeLogGroupName ''/svc/app.name'' = ''svc-app--name''"
    by (simp add: safeLogGroupName_def)
  show "safeLogGroupName ''a/b/c'' = ''a-b-c''"
    by (simp add: safeLogGroupName_def)
  show "safeLogGroupName [] = []"
    by (simp add: safeLogGroupName_def)
qed

section \<open>Source names from resource identifiers\<close>

lemma split_on_not_Nil: "split_on c s \<noteq> []"
  by (induction s) (simp_all split: list.splits)

lemma split_on_no_sep: "c \<notin> set f \<Longrightarrow> split_on c f = [f]"
  by (induction f) auto

lemma split_on_append_sep: "c \<notin> set f \<Longrightarrow> split_on c (f @ c # r) = f # split_on c r"
  by (induction f) auto

lemma split_on_join_fields:
  "fs \<noteq> [] \<Longrightarrow> \<forall>f\<in>set fs. CHR '':'' \<notin> set f \<Longrightarrow> split_on CHR '':'' (join_fields fs) = fs"
  by (induction fs rule: join_fields.induct) (simp_all add: split_on_no_sep split_on_append_sep)

lemma join_fields_split_on: "join_fields (split_on CHR '':'' s) = s"
proof (induction s)
  case Nil
  show ?case by simp
next
  case (Cons x xs)
  obtain p ps where ps: "split_on CHR '':'' xs = p # ps"
    using split_on_not_Nil by (cases "split_on CHR '':'' xs") auto
  with Cons show ?case by (cases ps) auto
qed

lemma split_on_fields_no_sep: "f \<in> set (split_on c s) \<Longrightarrow> c \<notin> set f"
  by (induction s arbitrary: f) (auto split: if_splits list.splits)

lemma length_split_on: "length (split_on c s) = Suc (length (filter (\<lambda>x. x = c) s))"
  by (induction s) (auto split: list.splits simp: split_on_not_Nil)

text \<open>
  Claim C2, as amended. The source name of an identifier is its 7th colon-delimited
  field (index 6), and the identifier itself when it has fewer than 7 fields. So the
  7-field identifier \<open>arn:aws:logs:region:acct:log-group:my-group\<close> resolves to
  \<open>my-group\<close>, and \<open>id:svc:region:acct:log-group:my-group\<close>, which has 6 fields,
  resolves to itself.
\<close>

theorem getLogGroupNameFromArn_fields:
  "(fs \<noteq> [] \<and> (\<forall>f\<in>set fs. CHR '':'' \<notin> set f) \<longrightarrow>
      getLogGroupNameFromArn (join_fields fs) = (if 6 < length fs then fs ! 6 else join_fields fs))
   \<and> (length (split_on CHR '':'' arn) < 7 \<longrightarrow> getLogGroupNameFromArn arn = arn)
   \<and> getLogGroupNameFromArn ''arn:aws:logs:region:acct:log-group:my-group'' = ''my-group''
   \<and> getLogGroupNameFromArn ''id:svc:region:acct:log-group:my-group''
        = ''id:svc:region:acct:log-group:my-group''"
proof (intro conjI impI)
  assume "fs \<noteq> [] \<and> (\<forall>f\<in>set fs. CHR '':'' \<notin> set f)"
  then show "getLogGroupNameFromArn (join_fields fs)
               = (if 6 < length fs then fs ! 6 else join_fields fs)"
    by (simp add: getLogGroupNameFromArn_def split_on_join_fields)
next
  assume "length (split_on CHR '':'' arn) < 7"
  then show "getLogGroupNameFromArn arn = arn"
    by (simp add: getLogGroupNameFromArn_def)
next
  show "getLogGroupNameFromArn ''arn:aws:logs:region:acct:log-group:my-group'' = ''my-group''"
    by code_simp
next
  show "getLogGroupNameFromArn ''id:svc:region:acct:log-group:my-group''
          = ''id:svc:region:acct:log-group:my-group''"
    by code_simp
qed

theorem getLogGroupNameFromArn_fields_witness:
  "[''a'', ''b'', ''c'', ''d'', ''e'', ''f'', ''g'', ''h''] \<noteq> []
   \<and> list_all (\<lambda>f. CHR '':'' \<notin> set f) [''a'', ''b'', ''c'', ''d'', ''e'', ''f'', ''g'', ''h'']
   \<and> getLogGroupNameFromArn ''a:b:c:d:e:f:g:h'' = ''g''
   \<and> length (split_on CHR '':'' ''a:b'') < 7
   \<and> getLogGroupNameFromArn ''a:b'' = ''a:b''"
  using getLogGroupNameFromArn_fields
          [of "[''a'', ''b'', ''c'', ''d'', ''e'', ''f'', ''g'', ''h'']" "''a:b''"]
  by simp

text \<open>
  The identifier of the claim's example has only 6 fields, so it does not resolve to
  \<open>my-group\<close>.
\<close>

theorem getLogGroupNameFromArn_six_fields_counterexample:
  "getLogGroupNameFromArn ''id:svc:region:acct:log-group:my-group'' \<noteq> ''my-group''"
  by code_simp

section \<open>Export window\<close>

lemma targetToTime_span: "targetToTime tza now - targetFromTime tza now = 86400999"
  by (simp add: targetToTime_def)

text \<open>
  Claim C1, evaluated on the code. Invoked at 2024-03-01T13:01:00Z on a host in UTC,
  the window starts at 2024-02-29T00:00:00.000Z but ends at 2024-03-01T00:00:00.999Z,
  one second after the last millisecond of the previous day. On a host nine hours
  east of UTC, invoked at 2024-03-01T15:00:00Z, the window starts at local midnight
  of the local date 2024-03-01 and the path is that of 2024/03/01, while the previous
  UTC day starts at 2024-02-29T00:00:00.000Z and its UTC date is 2024-02-29.
\<close>

theorem export_window_at_failing_inputs:
  "export_command 0 1709298060000 ''archive-bucket'' ''/svc/app.name'' =
     \<lparr> destination = ''archive-bucket'', logGroupName = ''/svc/app.name'',
       from_time = 1709164800000, to_time = 1709251200999,
       destinationPrefix = ''svc-app--name/2024/02/29/'' \<rparr>
   \<and> targetToTime 0 1709298060000 \<noteq> targetFromTime 0 1709298060000 + 24 * 60 * 60 * 1000 - 1
   \<and> export_command 32400000 1709305200000 ''archive-bucket'' ''/svc/app.name'' =
     \<lparr> destination = ''archive-bucket'', logGroupName = ''/svc/app.name'',
       from_time = 1709218800000, to_time = 1709305200999,
       destinationPrefix = ''svc-app--name/2024/03/01/'' \<rparr>
   \<and> (Day 1709305200000 - 1) * msPerDay = 1709164800000
   \<and> (getUTCFullYear 1709164800000, getUTCMonth 1709164800000 + 1, getUTCDate 1709164800000)
        = (2024, 2, 29)"
proof (intro conjI)
  show "export_command 0 1709298060000 ''archive-bucket'' ''/svc/app.name'' =
     \<lparr> destination = ''archive-bucket'', logGroupName = ''/svc/app.name'',
       from_time = 1709164800000, to_time = 1709251200999,
       destinationPrefix = ''svc-app--name/2024/02/29/'' \<rparr>"
    by code_simp
  show "targetToTime 0 1709298060000 \<noteq> targetFromTime 0 1709298060000 + 24 * 60 * 60 * 1000 - 1"
    by (simp add: targetToTime_def)
  show "export_command 32400000 1709305200000 ''archive-bucket'' ''/svc/app.name'' =
     \<lparr> destination = ''archive-bucket'', logGroupName = ''/svc/app.name'',
       from_time = 1709218800000, to_time = 1709305200999,
       destinationPrefix = ''svc-app--name/2024/03/01/'' \<rparr>"
    by code_simp
  show "(Day 1709305200000 - 1) * msPerDay = 1709164800000"
    by (simp add: Day_def msPerDay_def)
  show "(getUTCFullYear 1709164800000, getUTCMonth 1709164800000 + 1, getUTCDate 1709164800000)
          = (2024, 2, 29)"
    by code_simp
qed

section \<open>Export task controller\<close>

subsection \<open>One step of the controller\<close>

lemma createExportLogGroup_no_task:
  "\<not> truthy (createExportTask w h (export_command (LocalTZA w) (clock w h) bucketName name)) \<Longrightarrow>
   createExportLogGroup fuel w stepName bucketName name retried h =
     Some (Inl (Error (''CreateExportTask did not return taskId for log group: '' @ name)),
           h @ [CreateExportTask (export_command (LocalTZA w) (clock w h) bucketName name)])"
  by (cases "createExportTask w h (export_command (LocalTZA w) (clock w h) bucketName name)")
     (simp_all add: createExportLogGroup.simps Let_def)

lemma createExportLogGroup_task:
  "createExportTask w h (export_command (LocalTZA w) (clock w h) bucketName name) = Some taskId \<Longrightarrow>
   taskId \<noteq> [] \<Longrightarrow>
   createExportLogGroup fuel w stepName bucketName name retried h =
     poll fuel w stepName bucketName name retried taskId
       (h @ [CreateExportTask (export_command (LocalTZA w) (clock w h) bucketName name)])"
  by (simp add: createExportLogGroup.simps Let_def)

lemma poll_terminal:
  "describe_status (describeExportTasks w h taskId) \<in> {''COMPLETED'', ''CANCELLED'', ''PENDING_CANCEL''} \<Longrightarrow>
   poll (Suc fuel) w stepName bucketName name retried taskId h =
     Some (Inr (), h @ [DescribeExportTasks taskId])"
  by (auto simp add: poll.simps Let_def)

lemma poll_failed_first:
  "describe_status (describeExportTasks w h taskId) = ''FAILED'' \<Longrightarrow>
   poll (Suc fuel) w stepName bucketName name False taskId h =
     createExportLogGroup fuel w (stepName @ ''-retry'') bucketName name True
       (h @ [DescribeExportTasks taskId, Wait (stepName @ ''-retry-wait'') 3])"
  by (simp add: poll.simps Let_def PENDING_WAIT_SECONDS_def)

lemma poll_failed_retried:
  "describe_status (describeExportTasks w h taskId) = ''FAILED'' \<Longrightarrow>
   poll (Suc fuel) w stepName bucketName name True taskId h =
     Some (Inl (Error (''Export task '' @ taskId @ '' failed for log group: '' @ name)),
           h @ [DescribeExportTasks taskId])"
  by (simp add: poll.simps Let_def)

lemma poll_running:
  "describe_status (describeExportTasks w h taskId) = ''RUNNING'' \<Longrightarrow>
   poll (Suc fuel) w stepName bucketName name retried taskId h =
     poll fuel w stepName bucketName name retried taskId
       (h @ [DescribeExportTasks taskId, Wait (stepName @ ''-running-wait'') 10])"
  by (simp add: poll.simps Let_def RUNNING_WAIT_SECONDS_def)

lemma poll_other:
  "describe_status (describeExportTasks w h taskId)
      \<notin> {''COMPLETED'', ''CANCELLED'', ''PENDING_CANCEL'', ''FAILED'', ''RUNNING''} \<Longrightarrow>
   poll (Suc fuel) w stepName bucketName name retried taskId h =
     poll fuel w stepName bucketName name retried taskId
       (h @ [DescribeExportTasks taskId, Wait (stepName @ ''-pending-wait'') 3])"
  by (simp add: poll.simps Let_def PENDING_WAIT_SECONDS_def)

lemma describe_status_default: "no_status_code r \<Longrightarrow> describe_status r = ''PENDING''"
  by (induction r rule: no_status_code.induct) (simp_all add: describe_status_def)


subsection \<open>The log of a run\<close>

text \<open>
  A run that returns has extended the log, and the number of create requests it has
  added is bounded: none by the polling of a retry, one by a retry, at most two by a
  first attempt.
\<close>

lemma creates_append: "creates (xs @ ys) = creates xs + creates ys"
  by (simp add: creates_def)

lemma creates_simps:
  "creates [] = 0"
  "creates (CreateExportTask cmd # h) = Suc (creates h)"
  "creates (DescribeExportTasks t # h) = creates h"
  "creates (Wait s k # h) = creates h"
  "creates (GetResources g # h) = creates h"
  by (simp_all add: creates_def)

lemma poll_retried_log:
  "poll fuel w stepName bucketName name True taskId h = Some (res, h') \<Longrightarrow>
   \<exists>es. h' = h @ es \<and> es \<noteq> [] \<and> creates es = 0"
proof (induction fuel arbitrary: h)
  case 0
  then show ?case by (simp add: poll.simps)
next
  case (Suc fuel)
  let ?st = "describe_status (describeExportTasks w h taskId)"
  consider (terminal) "?st \<in> {''COMPLETED'', ''CANCELLED'', ''PENDING_CANCEL''}"
    | (failed) "?st = ''FAILED''"
    | (running) "?st = ''RUNNING''"
    | (other) "?st \<notin> {''COMPLETED'', ''CANCELLED'', ''PENDING_CANCEL'', ''FAILED'', ''RUNNING''}"
    by blast
  then show ?case
  proof cases
    case terminal
    with Suc.prems show ?thesis unfolding poll_terminal [OF terminal] by (auto simp: creates_simps)
  next
    case failed
    with Suc.prems show ?thesis unfolding poll_failed_retried [OF failed] by (auto simp: creates_simps)
  next
    case running
    with Suc.prems have "poll fuel w stepName bucketName name True taskId
       (h @ [DescribeExportTasks taskId, Wait (stepName @ ''-running-wait'') 10]) = Some (res, h')"
      unfolding poll_running [OF running] by simp
    from Suc.IH [OF this] show ?thesis by (auto simp: creates_append creates_simps)
  next
    case other
    with Suc.prems have "poll fuel w stepName bucketName name True taskId
       (h @ [DescribeExportTasks taskId, Wait (stepName @ ''-pending-wait'') 3]) = Some (res, h')"
      unfolding poll_other [OF other] by simp
    from Suc.IH [OF this] show ?thesis by (auto simp: creates_append creates_simps)
  qed
qed

lemma createExportLogGroup_cases:
  obtains (no_task) "\<not> truthy (createExportTask w h (export_command (LocalTZA w) (clock w h) bucketName name))"
  | (task) taskId where
      "createExportTask w h (export_command (LocalTZA w) (clock w h) bucketName name) = Some taskId"
      "taskId \<noteq> []"
  by (cases "createExportTask w h (export_command (LocalTZA w) (clock w h) bucketName name)") auto

lemma createExportLogGroup_retried_log:
  assumes "createExportLogGroup fuel w stepName bucketName name True h = Some (res, h')"
  shows "\<exists>es. h' = h @ es \<and> es \<noteq> [] \<and> creates es = 1"
proof (cases rule: createExportLogGroup_cases [of w h bucketName name])
  case no_task
  with assms show ?thesis
    unfolding createExportLogGroup_no_task [OF no_task] by (auto simp: creates_simps)
next
  case (task taskId)
  with assms have "poll fuel w stepName bucketName name True taskId
       (h @ [CreateExportTask (export_command (LocalTZA w) (clock w h) bucketName name)]) = Some (res, h')"
    unfolding createExportLogGroup_task [OF task] by simp
  from poll_retried_log [OF this] show ?thesis
    by (auto simp: creates_append creates_simps)
qed

lemma poll_first_log:
  "poll fuel w stepName bucketName name False taskId h = Some (res, h') \<Longrightarrow>
   \<exists>es. h' = h @ es \<and> es \<noteq> [] \<and> creates es \<le> 1"
proof (induction fuel arbitrary: h)
  case 0
  then show ?case by (simp add: poll.simps)
next
  case (Suc fuel)
  let ?st = "describe_status (describeExportTasks w h taskId)"
  consider (terminal) "?st \<in> {''COMPLETED'', ''CANCELLED'', ''PENDING_CANCEL''}"
    | (failed) "?st = ''FAILED''"
    | (running) "?st = ''RUNNING''"
    | (other) "?st \<notin> {''COMPLETED'', ''CANCELLED'', ''PENDING_CANCEL'', ''FAILED'', ''RUNNING''}"
    by blast
  then show ?case
  proof cases
    case terminal
    with Suc.prems show ?thesis unfolding poll_terminal [OF terminal] by (auto simp: creates_simps)
  next
    case failed
    with Suc.prems have "createExportLogGroup fuel w (stepName @ ''-retry'') bucketName name True
       (h @ [DescribeExportTasks taskId, Wait (stepName @ ''-retry-wait'') 3]) = Some (res, h')"
      unfolding poll_failed_first [OF failed] by simp
    from createExportLogGroup_retried_log [OF this] show ?thesis
      by (auto simp: creates_append creates_simps)
  next
    case running
    with Suc.prems have "poll fuel w stepName bucketName name False taskId
       (h @ [DescribeExportTasks taskId, Wait (stepName @ ''-running-wait'') 10]) = Some (res, h')"
      unfolding poll_running [OF running] by simp
    from Suc.IH [OF this] show ?thesis by (auto simp: creates_append creates_simps)
  next
    case other
    with Suc.prems have "poll fuel w stepName bucketName name False taskId
       (h @ [DescribeExportTasks taskId, Wait (stepName @ ''-pending-wait'') 3]) = Some (res, h')"
      unfolding poll_other [OF other] by simp
    from Suc.IH [OF this] show ?thesis by (auto simp: creates_append creates_simps)
  qed
qed

lemma poll_log:
  "poll fuel w stepName bucketName name retried taskId h = Some (res, h') \<Longrightarrow>
   \<exists>es. h' = h @ es \<and> es \<noteq> []"
proof (cases retried)
  case True
  assume "poll fuel w stepName bucketName name retried taskId h = Some (res, h')"
  with True have "poll fuel w stepName bucketName name True taskId h = Some (res, h')" by simp
  from poll_retried_log [OF this] show ?thesis by blast
next
  case False
  assume "poll fuel w stepName bucketName name retried taskId h = Some (res, h')"
  with False have "poll fuel w stepName bucketName name False taskId h = Some (res, h')" by simp
  from poll_first_log [OF this] show ?thesis by blast
qed

lemma createExportLogGroup_first_log:
  assumes "createExportLogGroup fuel w stepName bucketName name False h = Some (res, h')"
  shows "\<exists>es. h' = h @ es \<and> es \<noteq> [] \<and> 1 \<le> creates es \<and> creates es \<le> 2"
proof (cases rule: createExportLogGroup_cases [of w h bucketName name])
  case no_task
  with assms show ?thesis
    unfolding createExportLogGroup_no_task [OF no_task] by (auto simp: creates_simps)
next
  case (task taskId)
  with assms have "poll fuel w stepName bucketName name False taskId
       (h @ [CreateExportTask (export_command (LocalTZA w) (clock w h) bucketName name)]) = Some (res, h')"
    unfolding createExportLogGroup_task [OF task] by simp
  from poll_first_log [OF this] show ?thesis
    by (auto simp: creates_append creates_simps)
qed


subsection \<open>Evaluating the scripted world\<close>

lemma scripted_world_simps:
  "BUCKET_NAME (scripted_world bucket cs ds ps) = bucket"
  "LocalTZA (scripted_world bucket cs ds ps) = 0"
  "clock (scripted_world bucket cs ds ps) h = 1709298060000"
  "createExportTask (scripted_world bucket cs ds ps) h cmd =
     (if length (filter is_create h) < length cs then cs ! length (filter is_create h) else None)"
  "describeExportTasks (scripted_world bucket cs ds ps) h t =
     (if length (filter is_describe h) < length ds then ds ! length (filter is_describe h) else None)"
  "getResources (scripted_world bucket cs ds ps) h g =
     (if length (filter is_get_resources h) < length ps then ps ! length (filter is_get_resources h)
      else \<lparr> ResourceTagMappingList = None, PaginationToken = None \<rparr>)"
  by (simp_all add: scripted_world_def Let_def)

subsection \<open>The claims on the controller\<close>

text \<open>
  Claim C6. When the create request returns no task identifier, the controller fails
  with the error of a creation without identifier, naming the log group; the create
  request is the only call it has made: no status poll, no wait, no retry, whatever the
  fuel and whether or not it is itself a retry.
\<close>

theorem createExportLogGroup_without_task_id:
  assumes "\<not> truthy (createExportTask w h (export_command (LocalTZA w) (clock w h) bucketName name))"
  shows "createExportLogGroup fuel w stepName bucketName name retried h =
     Some (Inl (Error (''CreateExportTask did not return taskId for log group: '' @ name)),
           h @ [CreateExportTask (export_command (LocalTZA w) (clock w h) bucketName name)])"
proof (cases "createExportTask w h (export_command (LocalTZA w) (clock w h) bucketName name)")
  case None
  then show ?thesis
    by (simp add: createExportLogGroup.simps Let_def)
next
  case (Some taskId)
  with assms have "taskId = []" by simp
  with Some show ?thesis
    by (simp add: createExportLogGroup.simps Let_def)
qed

theorem createExportLogGroup_without_task_id_witness:
  "\<not> truthy (createExportTask (scripted_world (Some ''archive-bucket'') [None] [] []) []
        (export_command 0 1709298060000 ''archive-bucket'' ''/svc/app.name''))
   \<and> createExportLogGroup 5 (scripted_world (Some ''archive-bucket'') [None] [] [])
        ''export-0'' ''archive-bucket'' ''/svc/app.name'' False [] =
      Some (Inl (Error ''CreateExportTask did not return taskId for log group: /svc/app.name''),
            [CreateExportTask (export_command 0 1709298060000 ''archive-bucket'' ''/svc/app.name'')])"
proof -
  let ?w = "scripted_world (Some ''archive-bucket'') [None] [] []"
  have no_id: "\<not> truthy (createExportTask ?w []
        (export_command (LocalTZA ?w) (clock ?w []) ''archive-bucket'' ''/svc/app.name''))"
    by (simp add: scripted_world_simps)
  from createExportLogGroup_without_task_id [OF no_id, of 5 "''export-0''" False] no_id
  show ?thesis
    by (simp add: scripted_world_simps)
qed

text \<open>
  A poll whose status is not \<open>FAILED\<close> does not throw: its outcome is never an error
  whose log ends with that poll.
\<close>

lemma poll_no_error_unless_failed:
  assumes not_failed: "describe_status (describeExportTasks w h taskId) \<noteq> ''FAILED''"
  shows "poll (Suc fuel) w stepName bucketName name retried taskId h
           \<noteq> Some (Inl e, h @ [DescribeExportTasks taskId])"
proof
  let ?st = "describe_status (describeExportTasks w h taskId)"
  assume err: "poll (Suc fuel) w stepName bucketName name retried taskId h
                 = Some (Inl e, h @ [DescribeExportTasks taskId])"
  consider (terminal) "?st \<in> {''COMPLETED'', ''CANCELLED'', ''PENDING_CANCEL''}"
    | (running) "?st = ''RUNNING''"
    | (other) "?st \<notin> {''COMPLETED'', ''CANCELLED'', ''PENDING_CANCEL'', ''FAILED'', ''RUNNING''}"
    using not_failed by blast
  then show False
  proof cases
    case terminal
    from err show False unfolding poll_terminal [OF terminal] by simp
  next
    case running
    from err have "poll fuel w stepName bucketName name retried taskId
        (h @ [DescribeExportTasks taskId, Wait (stepName @ ''-running-wait'') 10])
          = Some (Inl e, h @ [DescribeExportTasks taskId])"
      unfolding poll_running [OF running] by simp
    from poll_log [OF this] show False by auto
  next
    case other
    from err have "poll fuel w stepName bucketName name retried taskId
        (h @ [DescribeExportTasks taskId, Wait (stepName @ ''-pending-wait'') 3])
          = Some (Inl e, h @ [DescribeExportTasks taskId])"
      unfolding poll_other [OF other] by simp
    from poll_log [OF this] show False by auto
  qed
qed

text \<open>
  Claim C4. For every polled status: \<open>COMPLETED\<close>, \<open>CANCELLED\<close> or
  \<open>PENDING_CANCEL\<close> ends the controller with success; \<open>RUNNING\<close> is followed by a
  wait of 10 seconds and another poll; \<open>PENDING\<close> or any status that is none of the
  five named ones is followed by a wait of 3 seconds and another poll; and no status
  other than \<open>FAILED\<close> makes the poll throw.
\<close>

theorem poll_status_transitions:
  "(describe_status (describeExportTasks w h taskId) \<in> {''COMPLETED'', ''CANCELLED'', ''PENDING_CANCEL''} \<longrightarrow>
      poll (Suc fuel) w stepName bucketName name retried taskId h =
        Some (Inr (), h @ [DescribeExportTasks taskId]))
   \<and> (describe_status (describeExportTasks w h taskId) = ''RUNNING'' \<longrightarrow>
      poll (Suc fuel) w stepName bucketName name retried taskId h =
        poll fuel w stepName bucketName name retried taskId
          (h @ [DescribeExportTasks taskId, Wait (stepName @ ''-running-wait'') 10]))
   \<and> (describe_status (describeExportTasks w h taskId)
         \<notin> {''COMPLETED'', ''CANCELLED'', ''PENDING_CANCEL'', ''FAILED'', ''RUNNING''} \<longrightarrow>
      poll (Suc fuel) w stepName bucketName name retried taskId h =
        poll fuel w stepName bucketName name retried taskId
          (h @ [DescribeExportTasks taskId, Wait (stepName @ ''-pending-wait'') 3]))
   \<and> (describe_status (describeExportTasks w h taskId) \<noteq> ''FAILED'' \<longrightarrow>
      (\<forall>e. poll (Suc fuel) w stepName bucketName name retried taskId h
             \<noteq> Some (Inl e, h @ [DescribeExportTasks taskId])))"
proof (intro conjI impI allI)
  assume "describe_status (describeExportTasks w h taskId) \<in> {''COMPLETED'', ''CANCELLED'', ''PENDING_CANCEL''}"
  then show "poll (Suc fuel) w stepName bucketName name retried taskId h =
        Some (Inr (), h @ [DescribeExportTasks taskId])"
    by (rule poll_terminal)
next
  assume "describe_status (describeExportTasks w h taskId) = ''RUNNING''"
  then show "poll (Suc fuel) w stepName bucketName name retried taskId h =
        poll fuel w stepName bucketName name retried taskId
          (h @ [DescribeExportTasks taskId, Wait (stepName @ ''-running-wait'') 10])"
    by (rule poll_running)
next
  assume "describe_status (describeExportTasks w h taskId)
         \<notin> {''COMPLETED'', ''CANCELLED'', ''PENDING_CANCEL'', ''FAILED'', ''RUNNING''}"
  then show "poll (Suc fuel) w stepName bucketName name retried taskId h =
        poll fuel w stepName bucketName name retried taskId
          (h @ [DescribeExportTasks taskId, Wait (stepName @ ''-pending-wait'') 3])"
    by (rule poll_other)
next
  fix e
  assume "describe_status (describeExportTasks w h taskId) \<noteq> ''FAILED''"
  then show "poll (Suc fuel) w stepName bucketName name retried taskId h
          \<noteq> Some (Inl e, h @ [DescribeExportTasks taskId])"
    by (rule poll_no_error_unless_failed)
qed

theorem poll_status_transitions_witness:
  "describe_status (describeExportTasks
      (scripted_world (Some ''archive-bucket'') [Some ''task-1'']
         [with_status ''PENDING'', with_status ''RUNNING'', with_status ''COMPLETED''] [])
      [CreateExportTask (export_command 0 1709298060000 ''archive-bucket'' ''/svc/app.name'')]
      ''task-1'') = ''PENDING''
   \<and> poll (Suc (Suc (Suc 0)))
      (scripted_world (Some ''archive-bucket'') [Some ''task-1'']
         [with_status ''PENDING'', with_status ''RUNNING'', with_status ''COMPLETED''] [])
      ''export-0'' ''archive-bucket'' ''/svc/app.name'' False ''task-1''
      [CreateExportTask (export_command 0 1709298060000 ''archive-bucket'' ''/svc/app.name'')] =
     Some (Inr (),
      [CreateExportTask (export_command 0 1709298060000 ''archive-bucket'' ''/svc/app.name''),
       DescribeExportTasks ''task-1'', Wait ''export-0-pending-wait'' 3,
       DescribeExportTasks ''task-1'', Wait ''export-0-running-wait'' 10,
       DescribeExportTasks ''task-1''])"
proof -
  let ?w = "scripted_world (Some ''archive-bucket'') [Some ''task-1'']
         [with_status ''PENDING'', with_status ''RUNNING'', with_status ''COMPLETED''] []"
  let ?c = "CreateExportTask (export_command 0 1709298060000 ''archive-bucket'' ''/svc/app.name'')"
  let ?h1 = "[?c]"
  let ?h2 = "[?c, DescribeExportTasks ''task-1'', Wait ''export-0-pending-wait'' 3]"
  let ?h3 = "[?c, DescribeExportTasks ''task-1'', Wait ''export-0-pending-wait'' 3,
              DescribeExportTasks ''task-1'', Wait ''export-0-running-wait'' 10]"
  have s1: "describe_status (describeExportTasks ?w ?h1 ''task-1'') = ''PENDING''"
    by (simp add: scripted_world_simps with_status_def describe_status_def)
  have s2: "describe_status (describeExportTasks ?w ?h2 ''task-1'') = ''RUNNING''"
    by (simp add: scripted_world_simps with_status_def describe_status_def)
  have s3: "describe_status (describeExportTasks ?w ?h3 ''task-1'') = ''COMPLETED''"
    by (simp add: scripted_world_simps with_status_def describe_status_def)
  note t1 = poll_status_transitions [where w = ?w and h = ?h1 and taskId = "''task-1''"
      and fuel = "Suc (Suc 0)" and stepName = "''export-0''" and bucketName = "''archive-bucket''"
      and name = "''/svc/app.name''" and retried = False]
  note t2 = poll_status_transitions [where w = ?w and h = ?h2 and taskId = "''task-1''"
      and fuel = "Suc 0" and stepName = "''export-0''" and bucketName = "''archive-bucket''"
      and name = "''/svc/app.name''" and retried = False]
  note t3 = poll_status_transitions [where w = ?w and h = ?h3 and taskId = "''task-1''"
      and fuel = 0 and stepName = "''export-0''" and bucketName = "''archive-bucket''"
      and name = "''/svc/app.name''" and retried = False]
  have p3: "poll (Suc 0) ?w ''export-0'' ''archive-bucket'' ''/svc/app.name'' False ''task-1'' ?h3
              = Some (Inr (), ?h3 @ [DescribeExportTasks ''task-1''])"
    using t3 s3 by simp
  have p2: "poll (Suc (Suc 0)) ?w ''export-0'' ''archive-bucket'' ''/svc/app.name'' False ''task-1'' ?h2
              = poll (Suc 0) ?w ''export-0'' ''archive-bucket'' ''/svc/app.name'' False ''task-1'' ?h3"
    using t2 s2 by simp
  have p1: "poll (Suc (Suc (Suc 0))) ?w ''export-0'' ''archive-bucket'' ''/svc/app.name'' False ''task-1'' ?h1
              = poll (Suc (Suc 0)) ?w ''export-0'' ''archive-bucket'' ''/svc/app.name'' False ''task-1'' ?h2"
    using t1 s1 by simp
  show ?thesis
    using s1 p1 p2 p3 by simp
qed

text \<open>
  Claim C3. When a poll returns \<open>FAILED\<close> and no retry has occurred, the controller
  waits 3 seconds and runs the whole controller again as a retry, under the step name
  extended by \<open>-retry\<close>; a \<open>FAILED\<close> polled by a retry fails at once with the error
  of a failed export task; and a run that continues from a first \<open>FAILED\<close> issues
  exactly one more create request.
\<close>

theorem failed_status_retries_once:
  "describe_status (describeExportTasks w h taskId) = ''FAILED'' \<Longrightarrow>
     poll (Suc fuel) w stepName bucketName name False taskId h =
       createExportLogGroup fuel w (stepName @ ''-retry'') bucketName name True
         (h @ [DescribeExportTasks taskId, Wait (stepName @ ''-retry-wait'') 3])
   \<and> poll (Suc fuel) w stepName bucketName name True taskId h =
       Some (Inl (Error (''Export task '' @ taskId @ '' failed for log group: '' @ name)),
             h @ [DescribeExportTasks taskId])
   \<and> (\<forall>res h'. poll (Suc fuel) w stepName bucketName name False taskId h = Some (res, h')
         \<longrightarrow> creates h' = creates h + 1)"
proof (intro conjI allI impI)
  assume failed: "describe_status (describeExportTasks w h taskId) = ''FAILED''"
  show "poll (Suc fuel) w stepName bucketName name False taskId h =
       createExportLogGroup fuel w (stepName @ ''-retry'') bucketName name True
         (h @ [DescribeExportTasks taskId, Wait (stepName @ ''-retry-wait'') 3])"
    by (rule poll_failed_first [OF failed])
  show "poll (Suc fuel) w stepName bucketName name True taskId h =
       Some (Inl (Error (''Export task '' @ taskId @ '' failed for log group: '' @ name)),
             h @ [DescribeExportTasks taskId])"
    by (rule poll_failed_retried [OF failed])
  fix res h'
  assume "poll (Suc fuel) w stepName bucketName name False taskId h = Some (res, h')"
  then have "createExportLogGroup fuel w (stepName @ ''-retry'') bucketName name True
         (h @ [DescribeExportTasks taskId, Wait (stepName @ ''-retry-wait'') 3]) = Some (res, h')"
    unfolding poll_failed_first [OF failed] by simp
  from createExportLogGroup_retried_log [OF this]
  show "creates h' = creates h + 1"
    by (auto simp: creates_append creates_simps)
qed

theorem failed_status_retries_once_witness:
  "describe_status (describeExportTasks
      (scripted_world (Some ''archive-bucket'') [Some ''task-1'', Some ''task-2'']
         [with_status ''FAILED'', with_status ''FAILED''] [])
      [CreateExportTask (export_command 0 1709298060000 ''archive-bucket'' ''/svc/app.name'')]
      ''task-1'') = ''FAILED''
   \<and> createExportLogGroup (Suc (Suc 0))
      (scripted_world (Some ''archive-bucket'') [Some ''task-1'', Some ''task-2'']
         [with_status ''FAILED'', with_status ''FAILED''] [])
      ''export-0'' ''archive-bucket'' ''/svc/app.name'' False [] =
     Some (Inl (Error ''Export task task-2 failed for log group: /svc/app.name''),
      [CreateExportTask (export_command 0 1709298060000 ''archive-bucket'' ''/svc/app.name''),
       DescribeExportTasks ''task-1'', Wait ''export-0-retry-wait'' 3,
       CreateExportTask (export_command 0 1709298060000 ''archive-bucket'' ''/svc/app.name''),
       DescribeExportTasks ''task-2''])"
proof -
  let ?w = "scripted_world (Some ''archive-bucket'') [Some ''task-1'', Some ''task-2'']
         [with_status ''FAILED'', with_status ''FAILED''] []"
  let ?c = "CreateExportTask (export_command 0 1709298060000 ''archive-bucket'' ''/svc/app.name'')"
  let ?h1 = "[?c]"
  let ?h2 = "[?c, DescribeExportTasks ''task-1'', Wait ''export-0-retry-wait'' 3]"
  let ?h3 = "[?c, DescribeExportTasks ''task-1'', Wait ''export-0-retry-wait'' 3, ?c]"
  have s1: "describe_status (describeExportTasks ?w ?h1 ''task-1'') = ''FAILED''"
    by (simp add: scripted_world_simps with_status_def describe_status_def)
  have s3: "describe_status (describeExportTasks ?w ?h3 ''task-2'') = ''FAILED''"
    by (simp add: scripted_world_simps with_status_def describe_status_def)
  have c1: "createExportLogGroup (Suc (Suc 0)) ?w ''export-0'' ''archive-bucket'' ''/svc/app.name'' False []
          = poll (Suc (Suc 0)) ?w ''export-0'' ''archive-bucket'' ''/svc/app.name'' False ''task-1'' ?h1"
    using createExportLogGroup_task [where w = ?w and h = "[]" and bucketName = "''archive-bucket''"
      and name = "''/svc/app.name''" and taskId = "''task-1''" and fuel = "Suc (Suc 0)"
      and stepName = "''export-0''" and retried = False]
    by (simp add: scripted_world_simps)
  have c2: "createExportLogGroup (Suc 0) ?w ''export-0-retry'' ''archive-bucket'' ''/svc/app.name'' True ?h2
          = poll (Suc 0) ?w ''export-0-retry'' ''archive-bucket'' ''/svc/app.name'' True ''task-2'' ?h3"
    using createExportLogGroup_task [where w = ?w and h = ?h2 and bucketName = "''archive-bucket''"
      and name = "''/svc/app.name''" and taskId = "''task-2''" and fuel = "Suc 0"
      and stepName = "''export-0-retry''" and retried = True]
    by (simp add: scripted_world_simps)
  have p1: "poll (Suc (Suc 0)) ?w ''export-0'' ''archive-bucket'' ''/svc/app.name'' False ''task-1'' ?h1
          = createExportLogGroup (Suc 0) ?w ''export-0-retry'' ''archive-bucket'' ''/svc/app.name'' True ?h2"
    using failed_status_retries_once [OF s1, where fuel = "Suc 0" and stepName = "''export-0''"
      and bucketName = "''archive-bucket''" and name = "''/svc/app.name''"]
    by simp
  have p3: "poll (Suc 0) ?w ''export-0-retry'' ''archive-bucket'' ''/svc/app.name'' True ''task-2'' ?h3
          = Some (Inl (Error ''Export task task-2 failed for log group: /svc/app.name''),
                  ?h3 @ [DescribeExportTasks ''task-2''])"
    using failed_status_retries_once [OF s3, where fuel = 0 and stepName = "''export-0-retry''"
      and bucketName = "''archive-bucket''" and name = "''/svc/app.name''"]
    by simp
  show ?thesis
    using s1 c1 p1 c2 p3 by simp
qed

text \<open>
  Claim C9. A describe response without task list, with an empty task list, or whose
  first task has no status or no status code is polled as \<open>PENDING\<close>: the controller
  waits 3 seconds and polls again, and the poll does not throw.
\<close>

theorem missing_status_code_polls_as_pending:
  "no_status_code (describeExportTasks w h taskId) \<Longrightarrow>
     describe_status (describeExportTasks w h taskId) = ''PENDING''
   \<and> poll (Suc fuel) w stepName bucketName name retried taskId h =
       poll fuel w stepName bucketName name retried taskId
         (h @ [DescribeExportTasks taskId, Wait (stepName @ ''-pending-wait'') 3])
   \<and> (\<forall>e. poll (Suc fuel) w stepName bucketName name retried taskId h
            \<noteq> Some (Inl e, h @ [DescribeExportTasks taskId]))"
proof (intro conjI allI)
  assume "no_status_code (describeExportTasks w h taskId)"
  then show pending: "describe_status (describeExportTasks w h taskId) = ''PENDING''"
    by (rule describe_status_default)
  show "poll (Suc fuel) w stepName bucketName name retried taskId h =
       poll fuel w stepName bucketName name retried taskId
         (h @ [DescribeExportTasks taskId, Wait (stepName @ ''-pending-wait'') 3])"
    by (rule poll_other) (simp add: pending)
  fix e
  show "poll (Suc fuel) w stepName bucketName name retried taskId h
            \<noteq> Some (Inl e, h @ [DescribeExportTasks taskId])"
    by (rule poll_no_error_unless_failed) (simp add: pending)
qed

theorem missing_status_code_polls_as_pending_witness:
  "no_status_code (describeExportTasks
      (scripted_world (Some ''archive-bucket'') [Some ''task-1'']
         [Some [], with_status ''COMPLETED''] [])
      [CreateExportTask (export_command 0 1709298060000 ''archive-bucket'' ''/svc/app.name'')]
      ''task-1'')
   \<and> poll (Suc (Suc 0))
      (scripted_world (Some ''archive-bucket'') [Some ''task-1'']
         [Some [], with_status ''COMPLETED''] [])
      ''export-0'' ''archive-bucket'' ''/svc/app.name'' False ''task-1''
      [CreateExportTask (export_command 0 1709298060000 ''archive-bucket'' ''/svc/app.name'')] =
     Some (Inr (),
      [CreateExportTask (export_command 0 1709298060000 ''archive-bucket'' ''/svc/app.name''),
       DescribeExportTasks ''task-1'', Wait ''export-0-pending-wait'' 3,
       DescribeExportTasks ''task-1''])"
proof -
  let ?w = "scripted_world (Some ''archive-bucket'') [Some ''task-1'']
         [Some [], with_status ''COMPLETED''] []"
  let ?c = "CreateExportTask (export_command 0 1709298060000 ''archive-bucket'' ''/svc/app.name'')"
  let ?h1 = "[?c]"
  let ?h2 = "[?c, DescribeExportTasks ''task-1'', Wait ''export-0-pending-wait'' 3]"
  have s1: "no_status_code (describeExportTasks ?w ?h1 ''task-1'')"
    by (simp add: scripted_world_simps)
  have s2: "describe_status (describeExportTasks ?w ?h2 ''task-1'') \<in> {''COMPLETED'', ''CANCELLED'', ''PENDING_CANCEL''}"
    by (simp add: scripted_world_simps with_status_def describe_status_def)
  have p1: "poll (Suc (Suc 0)) ?w ''export-0'' ''archive-bucket'' ''/svc/app.name'' False ''task-1'' ?h1
          = poll (Suc 0) ?w ''export-0'' ''archive-bucket'' ''/svc/app.name'' False ''task-1'' ?h2"
    using missing_status_code_polls_as_pending [OF s1, where fuel = "Suc 0" and stepName = "''export-0''"
      and bucketName = "''archive-bucket''" and name = "''/svc/app.name''" and retried = False]
    by simp
  show ?thesis
    using s1 p1 poll_terminal [OF s2, where fuel = 0 and stepName = "''export-0''"
      and bucketName = "''archive-bucket''" and name = "''/svc/app.name''" and retried = False]
    by simp
qed

section \<open>Handler\<close>

subsection \<open>Validation and dispatch\<close>

lemma isArray_iff: "isArray v \<longleftrightarrow> (\<exists>vals. v = Some (JArray vals))"
  by (cases v rule: isArray.cases) simp_all

lemma isSchedulerInput_iff:
  "isSchedulerInput event \<longleftrightarrow>
     (\<exists>key vals. tagKey event = Some key \<and> tagValues event = Some (JArray vals))"
  by (auto simp: isSchedulerInput_def isArray_iff)

lemma handler_no_bucket:
  "\<not> truthy (BUCKET_NAME w) \<Longrightarrow>
   handler ctx_map fuel w event =
     Some (Inl (EnvironmentVariableError ''BUCKET_NAME environment variable not set.''), [])"
  by (simp add: handler_def)

lemma handler_scheduler:
  "truthy (BUCKET_NAME w) \<Longrightarrow> tagKey event = Some key \<Longrightarrow> tagValues event = Some (JArray vals) \<Longrightarrow>
   handler ctx_map fuel w event =
     (if \<not> js_truthy key \<or> vals = [] then
        Some (Inl (InputVariableError
          ''event must have tagKey and non-empty tagValues when using scheduler input.''), [])
      else
        (case get_resources_step fuel w key vals [] of
           None \<Rightarrow> None
         | Some (logGroupNames, h) \<Rightarrow>
             ctx_map (export_item fuel w (the (BUCKET_NAME w))) (map JString logGroupNames) h))"
  by (simp add: handler_def isSchedulerInput_iff Let_def)

lemma handler_legacy:
  "truthy (BUCKET_NAME w) \<Longrightarrow> \<not> isSchedulerInput event \<Longrightarrow>
   handler ctx_map fuel w event =
     (if \<not> property_truthy (TargetLogGroupName event) then
        Some (Inl (InputVariableError
          ''event input TargetLogGroupName (or tagKey/tagValues) not set.''), [])
      else ctx_map (export_item fuel w (the (BUCKET_NAME w))) [the (TargetLogGroupName event)] [])"
  by (simp add: handler_def Let_def)

subsection \<open>Paginated discovery\<close>

lemma push_arns_eq: "push_arns arns l = arns @ map the (filter truthy l)"
  by (induction l arbitrary: arns) simp_all

lemma get_resources_loop_Suc:
  "get_resources_loop (Suc fuel) w key vals arns token h =
     (let cmd = \<lparr> ResourceTypeFilters = [''logs:log-group''], TagFilterKey = key,
                  TagFilterValues = vals, RequestPaginationToken = token \<rparr>
      in if truthy (PaginationToken (getResources w h cmd))
         then get_resources_loop fuel w key vals (arns @ page_arns (getResources w h cmd))
                (PaginationToken (getResources w h cmd)) (h @ [GetResources cmd])
         else Some (arns @ page_arns (getResources w h cmd), h @ [GetResources cmd]))"
  by (simp add: get_resources_loop.simps Let_def push_arns_eq page_arns_def split: option.splits)

text \<open>
  When the service serves the pages \<open>rs\<close>, the loop sends the first token and then the
  token of each page but the last, and returns the identifiers of all the pages.
\<close>

lemma get_resources_loop_pages:
  "pages_served w key vals token h rs \<Longrightarrow> length rs \<le> fuel \<Longrightarrow>
   get_resources_loop fuel w key vals arns token h =
     Some (arns @ concat (map page_arns rs),
           h @ map (\<lambda>t. GetResources
                     \<lparr> ResourceTypeFilters = [''logs:log-group''], TagFilterKey = key,
                       TagFilterValues = vals, RequestPaginationToken = t \<rparr>)
                 (token # map PaginationToken (butlast rs)))"
proof (induction w key vals token h rs arbitrary: fuel arns rule: pages_served.induct)
  case (1 w key vals token h)
  then show ?case by simp
next
  case (2 w key vals token h r)
  then obtain k where "fuel = Suc k" by (cases fuel) auto
  with 2 show ?case
    by (simp add: get_resources_loop_Suc)
next
  case (3 w key vals token h r r' rs)
  then obtain k where k: "fuel = Suc k" by (cases fuel) auto
  let ?cmd = "\<lparr> ResourceTypeFilters = [''logs:log-group''], TagFilterKey = key,
                TagFilterValues = vals, RequestPaginationToken = token \<rparr>"
  from 3 have served: "pages_served w key vals (PaginationToken r) (h @ [GetResources ?cmd]) (r' # rs)"
    and r: "getResources w h ?cmd = r"
    and tok: "truthy (PaginationToken r)"
    by simp_all
  from 3 k have len: "length (r' # rs) \<le> k" by simp
  from "3.IH" [OF served len, of "arns @ page_arns r"] r tok k
  show ?case
    by (simp add: get_resources_loop_Suc)
qed

text \<open>A service that returns a token with every page keeps the loop going for ever.\<close>

lemma get_resources_loop_never_ends:
  "\<forall>h cmd. truthy (PaginationToken (getResources w h cmd)) \<Longrightarrow>
   get_resources_loop fuel w key vals arns token h = None"
proof (induction fuel arbitrary: arns token h)
  case 0
  show ?case by (simp add: get_resources_loop.simps)
next
  case (Suc fuel)
  then show ?case by (simp add: get_resources_loop_Suc)
qed

subsection \<open>Evaluating the paged world\<close>

lemma paged_world_simps:
  "BUCKET_NAME (paged_world bucket cs ds key vals pages) = bucket"
  "LocalTZA (paged_world bucket cs ds key vals pages) = 0"
  "clock (paged_world bucket cs ds key vals pages) h = 1709298060000"
  "createExportTask (paged_world bucket cs ds key vals pages) h cmd =
     (if length (filter is_create h) < length cs then cs ! length (filter is_create h) else None)"
  "describeExportTasks (paged_world bucket cs ds key vals pages) h t =
     (if length (filter is_describe h) < length ds then ds ! length (filter is_describe h) else None)"
  "getResources (paged_world bucket cs ds key vals pages) h g =
     (if ResourceTypeFilters g = [''logs:log-group''] \<and> TagFilterKey g = key \<and> TagFilterValues g = vals
      then (case map_of pages (RequestPaginationToken g) of
              Some r \<Rightarrow> r
            | None \<Rightarrow> \<lparr> ResourceTagMappingList = None, PaginationToken = Some ''again'' \<rparr>)
      else \<lparr> ResourceTagMappingList = None, PaginationToken = Some ''again'' \<rparr>)"
  by (simp_all add: paged_world_def scripted_world_def Let_def)

subsection \<open>The claims on the handler\<close>

text \<open>
  Claim C5, as amended. Without a destination bucket (\<open>BUCKET_NAME\<close> unset or empty)
  the run fails with \<open>EnvironmentVariableError\<close>. With a bucket configured, a
  tag-selector event with a falsy tag key (in particular an empty one) or an empty array
  of tag values fails with \<open>InputVariableError\<close>, and so does an event of the legacy
  form whose \<open>TargetLogGroupName\<close> is absent or falsy. In each case the log of calls is
  empty and the result does not depend on the services, on \<open>context.map\<close> or on the
  fuel: no discovery, create or describe request has been issued.
\<close>

theorem handler_validates_before_any_call:
  "(\<not> truthy (BUCKET_NAME w) \<longrightarrow>
      handler ctx_map fuel w event =
        Some (Inl (EnvironmentVariableError ''BUCKET_NAME environment variable not set.''), []))
   \<and> (truthy (BUCKET_NAME w) \<and> tagKey event = Some key \<and> tagValues event = Some (JArray vals)
        \<and> (\<not> js_truthy key \<or> vals = []) \<longrightarrow>
      handler ctx_map fuel w event =
        Some (Inl (InputVariableError
          ''event must have tagKey and non-empty tagValues when using scheduler input.''), []))
   \<and> (truthy (BUCKET_NAME w) \<and> \<not> isSchedulerInput event
        \<and> \<not> property_truthy (TargetLogGroupName event) \<longrightarrow>
      handler ctx_map fuel w event =
        Some (Inl (InputVariableError
          ''event input TargetLogGroupName (or tagKey/tagValues) not set.''), []))"
proof (intro conjI impI)
  assume "\<not> truthy (BUCKET_NAME w)"
  then show "handler ctx_map fuel w event =
        Some (Inl (EnvironmentVariableError ''BUCKET_NAME environment variable not set.''), [])"
    by (rule handler_no_bucket)
next
  assume "truthy (BUCKET_NAME w) \<and> tagKey event = Some key \<and> tagValues event = Some (JArray vals)
        \<and> (\<not> js_truthy key \<or> vals = [])"
  then show "handler ctx_map fuel w event =
        Some (Inl (InputVariableError
          ''event must have tagKey and non-empty tagValues when using scheduler input.''), [])"
    using handler_scheduler [of w event key vals ctx_map fuel] by auto
next
  assume "truthy (BUCKET_NAME w) \<and> \<not> isSchedulerInput event
        \<and> \<not> property_truthy (TargetLogGroupName event)"
  then show "handler ctx_map fuel w event =
        Some (Inl (InputVariableError
          ''event input TargetLogGroupName (or tagKey/tagValues) not set.''), [])"
    using handler_legacy [of w event ctx_map fuel] by auto
qed

theorem handler_validates_before_any_call_witness:
  "handler sequential_map 1 (scripted_world None [] [] [])
      \<lparr> tagKey = Some (JString ''DailyLogExport''), tagValues = Some (JArray [JString ''Yes'']),
        TargetLogGroupName = None \<rparr> =
     Some (Inl (EnvironmentVariableError ''BUCKET_NAME environment variable not set.''), [])
   \<and> handler sequential_map 1 (scripted_world (Some ''archive-bucket'') [] [] [])
      \<lparr> tagKey = Some (JString []), tagValues = Some (JArray [JString ''Yes'']),
        TargetLogGroupName = None \<rparr> =
     Some (Inl (InputVariableError
        ''event must have tagKey and non-empty tagValues when using scheduler input.''), [])
   \<and> handler sequential_map 1 (scripted_world (Some ''archive-bucket'') [] [] [])
      \<lparr> tagKey = Some (JString ''DailyLogExport''), tagValues = Some (JArray []),
        TargetLogGroupName = None \<rparr> =
     Some (Inl (InputVariableError
        ''event must have tagKey and non-empty tagValues when using scheduler input.''), [])
   \<and> handler sequential_map 1 (scripted_world (Some ''archive-bucket'') [] [] [])
      \<lparr> tagKey = None, tagValues = None, TargetLogGroupName = None \<rparr> =
     Some (Inl (InputVariableError
        ''event input TargetLogGroupName (or tagKey/tagValues) not set.''), [])"
  using
    handler_validates_before_any_call [of "scripted_world None [] [] []" sequential_map 1
      "\<lparr> tagKey = Some (JString ''DailyLogExport''), tagValues = Some (JArray [JString ''Yes'']),
         TargetLogGroupName = None \<rparr>" "JString ''DailyLogExport''" "[JString ''Yes'']"]
    handler_validates_before_any_call [of "scripted_world (Some ''archive-bucket'') [] [] []"
      sequential_map 1
      "\<lparr> tagKey = Some (JString []), tagValues = Some (JArray [JString ''Yes'']),
         TargetLogGroupName = None \<rparr>"
      "JString []" "[JString ''Yes'']"]
    handler_validates_before_any_call [of "scripted_world (Some ''archive-bucket'') [] [] []"
      sequential_map 1
      "\<lparr> tagKey = Some (JString ''DailyLogExport''), tagValues = Some (JArray []),
         TargetLogGroupName = None \<rparr>" "JString ''DailyLogExport''" "[]"]
    handler_validates_before_any_call [of "scripted_world (Some ''archive-bucket'') [] [] []"
      sequential_map 1
      "\<lparr> tagKey = None, tagValues = None, TargetLogGroupName = None \<rparr>" "JNull" "[]"]
  by (simp add: scripted_world_simps isSchedulerInput_def)

text \<open>
  An empty tag key does not give \<open>InputVariableError\<close> when the bucket is not
  configured either: the bucket is checked first.
\<close>

theorem handler_missing_bucket_counterexample:
  "tagKey \<lparr> tagKey = Some (JString []), tagValues = Some (JArray [JString ''Yes'']),
            TargetLogGroupName = None \<rparr>
     = Some (JString [])
   \<and> handler sequential_map 1 (scripted_world None [] [] [])
      \<lparr> tagKey = Some (JString []), tagValues = Some (JArray [JString ''Yes'']),
        TargetLogGroupName = None \<rparr> =
     Some (Inl (EnvironmentVariableError ''BUCKET_NAME environment variable not set.''), [])"
  by (simp add: handler_def scripted_world_simps)

text \<open>
  Claim C8. Let the tagging service, asked for the log groups with the tag of the event,
  first without token and then each time with the token of the page before, serve the
  pages \<open>rs\<close>, the last one alone without token. Then, given fuel for these pages, the
  discovery step issues exactly one request per page, each for the resource type
  \<open>logs:log-group\<close> with the tag key and values of the event: the first without
  token, every later one with the token that the page before returned. It returns the
  source names of the truthy identifiers of all the pages, in the order served, nothing
  removed and nothing reordered, and the handler passes this list to \<open>context.map\<close>.
  In the evaluated run below the service answers by the token of the request, and an
  identifier served on both pages is in the list twice.
\<close>

theorem tag_resolution_collects_all_pages:
  assumes "truthy (BUCKET_NAME w)"
    and "tagKey event = Some key" and "tagValues event = Some (JArray vals)"
    and "js_truthy key" and "vals \<noteq> []"
    and "pages_served w key vals None [] rs" and "length rs \<le> fuel"
  shows "get_resources_step fuel w key vals [] =
           Some (map getLogGroupNameFromArn (concat (map page_arns rs)),
                 map (\<lambda>token. GetResources
                        \<lparr> ResourceTypeFilters = [''logs:log-group''], TagFilterKey = key,
                          TagFilterValues = vals, RequestPaginationToken = token \<rparr>)
                     (None # map PaginationToken (butlast rs)))
         \<and> handler ctx_map fuel w event =
           ctx_map (export_item fuel w (the (BUCKET_NAME w)))
             (map JString (map getLogGroupNameFromArn (concat (map page_arns rs))))
             (map (\<lambda>token. GetResources
                     \<lparr> ResourceTypeFilters = [''logs:log-group''], TagFilterKey = key,
                       TagFilterValues = vals, RequestPaginationToken = token \<rparr>)
                  (None # map PaginationToken (butlast rs)))"
proof -
  let ?log = "map (\<lambda>token. GetResources
                     \<lparr> ResourceTypeFilters = [''logs:log-group''], TagFilterKey = key,
                       TagFilterValues = vals, RequestPaginationToken = token \<rparr>)
                  (None # map PaginationToken (butlast rs))"
  have loop: "get_resources_loop fuel w key vals [] None [] = Some (concat (map page_arns rs), ?log)"
    using get_resources_loop_pages [OF assms(6) assms(7), of "[]"] by simp
  then have step: "get_resources_step fuel w key vals [] =
           Some (map getLogGroupNameFromArn (concat (map page_arns rs)), ?log)"
    by (simp add: get_resources_step_def)
  have "handler ctx_map fuel w event =
           ctx_map (export_item fuel w (the (BUCKET_NAME w)))
             (map JString (map getLogGroupNameFromArn (concat (map page_arns rs)))) ?log"
    unfolding handler_scheduler [OF assms(1) assms(2) assms(3)] step
    using assms(4) assms(5) by simp
  with step show ?thesis by (intro conjI)
qed

theorem tag_resolution_collects_all_pages_witness:
  "pages_served
     (paged_world (Some ''archive-bucket'') [] [] (JString ''DailyLogExport'') [JString ''Yes'']
       [(None,
         \<lparr> ResourceTagMappingList =
             Some [Some ''arn:aws:logs:us-east-1:123456789012:log-group:/svc/app'',
                   Some ''arn:aws:logs:us-east-1:123456789012:log-group:/svc/db''],
           PaginationToken = Some ''page-2'' \<rparr>),
        (Some ''page-2'',
         \<lparr> ResourceTagMappingList =
             Some [Some ''arn:aws:logs:us-east-1:123456789012:log-group:/svc/app''],
           PaginationToken = None \<rparr>)])
     (JString ''DailyLogExport'') [JString ''Yes''] None []
       [\<lparr> ResourceTagMappingList =
             Some [Some ''arn:aws:logs:us-east-1:123456789012:log-group:/svc/app'',
                   Some ''arn:aws:logs:us-east-1:123456789012:log-group:/svc/db''],
           PaginationToken = Some ''page-2'' \<rparr>,
        \<lparr> ResourceTagMappingList =
             Some [Some ''arn:aws:logs:us-east-1:123456789012:log-group:/svc/app''],
           PaginationToken = None \<rparr>]
   \<and> handler sequential_map 2
     (paged_world (Some ''archive-bucket'') [] [] (JString ''DailyLogExport'') [JString ''Yes'']
       [(None,
         \<lparr> ResourceTagMappingList =
             Some [Some ''arn:aws:logs:us-east-1:123456789012:log-group:/svc/app'',
                   Some ''arn:aws:logs:us-east-1:123456789012:log-group:/svc/db''],
           PaginationToken = Some ''page-2'' \<rparr>),
        (Some ''page-2'',
         \<lparr> ResourceTagMappingList =
             Some [Some ''arn:aws:logs:us-east-1:123456789012:log-group:/svc/app''],
           PaginationToken = None \<rparr>)])
     \<lparr> tagKey = Some (JString ''DailyLogExport''), tagValues = Some (JArray [JString ''Yes'']),
       TargetLogGroupName = None \<rparr> =
     sequential_map
       (export_item 2
         (paged_world (Some ''archive-bucket'') [] [] (JString ''DailyLogExport'') [JString ''Yes'']
           [(None,
             \<lparr> ResourceTagMappingList =
                 Some [Some ''arn:aws:logs:us-east-1:123456789012:log-group:/svc/app'',
                       Some ''arn:aws:logs:us-east-1:123456789012:log-group:/svc/db''],
               PaginationToken = Some ''page-2'' \<rparr>),
            (Some ''page-2'',
             \<lparr> ResourceTagMappingList =
                 Some [Some ''arn:aws:logs:us-east-1:123456789012:log-group:/svc/app''],
               PaginationToken = None \<rparr>)])
         ''archive-bucket'')
       [JString ''/svc/app'', JString ''/svc/db'', JString ''/svc/app'']
       [GetResources
          \<lparr> ResourceTypeFilters = [''logs:log-group''], TagFilterKey = JString ''DailyLogExport'',
            TagFilterValues = [JString ''Yes''], RequestPaginationToken = None \<rparr>,
        GetResources
          \<lparr> ResourceTypeFilters = [''logs:log-group''], TagFilterKey = JString ''DailyLogExport'',
            TagFilterValues = [JString ''Yes''], RequestPaginationToken = Some ''page-2'' \<rparr>]"
proof -
  let ?p1 = "\<lparr> ResourceTagMappingList =
             Some [Some ''arn:aws:logs:us-east-1:123456789012:log-group:/svc/app'',
                   Some ''arn:aws:logs:us-east-1:123456789012:log-group:/svc/db''],
           PaginationToken = Some ''page-2'' \<rparr>"
  let ?p2 = "\<lparr> ResourceTagMappingList =
             Some [Some ''arn:aws:logs:us-east-1:123456789012:log-group:/svc/app''],
           PaginationToken = None \<rparr>"
  let ?w = "paged_world (Some ''archive-bucket'') [] [] (JString ''DailyLogExport'') [JString ''Yes'']
              [(None, ?p1), (Some ''page-2'', ?p2)]"
  let ?ev = "\<lparr> tagKey = Some (JString ''DailyLogExport''), tagValues = Some (JArray [JString ''Yes'']),
       TargetLogGroupName = None \<rparr>"
  have served: "pages_served ?w (JString ''DailyLogExport'') [JString ''Yes''] None [] [?p1, ?p2]"
    by (simp add: paged_world_simps)
  have names: "map JString (map getLogGroupNameFromArn (concat (map page_arns [?p1, ?p2])))
                 = [JString ''/svc/app'', JString ''/svc/db'', JString ''/svc/app'']"
    by (simp add: page_arns_def getLogGroupNameFromArn_def)
  have bucket: "truthy (BUCKET_NAME ?w)"
    by (simp add: paged_world_simps)
  have name: "the (BUCKET_NAME ?w) = ''archive-bucket''"
    by (simp add: paged_world_simps)
  have tokens: "None # map PaginationToken (butlast [?p1, ?p2]) = [None, Some ''page-2'']"
    by simp
  have key: "tagKey ?ev = Some (JString ''DailyLogExport'')" by simp
  have vals: "tagValues ?ev = Some (JArray [JString ''Yes''])" by simp
  have key_ok: "js_truthy (JString ''DailyLogExport'')" by simp
  have vals_ne: "[JString ''Yes''] \<noteq> []" by simp
  have len: "length [?p1, ?p2] \<le> 2" by simp
  note run = tag_resolution_collects_all_pages
               [OF bucket key vals key_ok vals_ne served len, of sequential_map, THEN conjunct2]
  have "handler sequential_map 2 ?w ?ev =
     sequential_map (export_item 2 ?w ''archive-bucket'')
       [JString ''/svc/app'', JString ''/svc/db'', JString ''/svc/app'']
       [GetResources
          \<lparr> ResourceTypeFilters = [''logs:log-group''], TagFilterKey = JString ''DailyLogExport'',
            TagFilterValues = [JString ''Yes''], RequestPaginationToken = None \<rparr>,
        GetResources
          \<lparr> ResourceTypeFilters = [''logs:log-group''], TagFilterKey = JString ''DailyLogExport'',
            TagFilterValues = [JString ''Yes''], RequestPaginationToken = Some ''page-2'' \<rparr>]"
    using run unfolding names tokens name by simp
  with served show ?thesis by (intro conjI)
qed

text \<open>
  Claim C10. An event that has a \<open>tagKey\<close> property, whatever its value, and a
  \<open>tagValues\<close> property that is an array is scheduler input: the handler gives the same
  result whatever \<open>TargetLogGroupName\<close> is, and with a bucket it runs the tag-based
  branch, which rejects a falsy key or an empty array and otherwise runs the discovery
  step and maps over the names found. An event whose \<open>tagValues\<close> is present but not
  an array is not scheduler input: the handler gives the same result as for the event
  without the two tag properties, which with a bucket is the export of
  \<open>TargetLogGroupName\<close> alone when that is truthy, and \<open>InputVariableError\<close>
  otherwise.
\<close>

theorem input_dispatch_prefers_tag_selector:
  "(tagKey event = Some key \<and> tagValues event = Some (JArray vals) \<longrightarrow>
      isSchedulerInput event
      \<and> handler ctx_map fuel w event = handler ctx_map fuel w (event\<lparr>TargetLogGroupName := name\<rparr>)
      \<and> (truthy (BUCKET_NAME w) \<longrightarrow>
           handler ctx_map fuel w event =
             (if \<not> js_truthy key \<or> vals = [] then
                Some (Inl (InputVariableError
                  ''event must have tagKey and non-empty tagValues when using scheduler input.''), [])
              else
                (case get_resources_step fuel w key vals [] of
                   None \<Rightarrow> None
                 | Some (logGroupNames, h) \<Rightarrow>
                     ctx_map (export_item fuel w (the (BUCKET_NAME w))) (map JString logGroupNames) h))))
   \<and> (tagValues event = Some v \<and> \<not> isArray (Some v) \<longrightarrow>
      \<not> isSchedulerInput event
      \<and> handler ctx_map fuel w event =
          handler ctx_map fuel w (event\<lparr>tagKey := None, tagValues := None\<rparr>)
      \<and> (truthy (BUCKET_NAME w) \<longrightarrow>
           handler ctx_map fuel w event =
             (if property_truthy (TargetLogGroupName event)
              then ctx_map (export_item fuel w (the (BUCKET_NAME w))) [the (TargetLogGroupName event)] []
              else Some (Inl (InputVariableError
                     ''event input TargetLogGroupName (or tagKey/tagValues) not set.''), []))))"
proof (intro conjI impI)
  assume tag: "tagKey event = Some key \<and> tagValues event = Some (JArray vals)"
  then show sched: "isSchedulerInput event"
    by (auto simp: isSchedulerInput_iff)
  show "handler ctx_map fuel w event = handler ctx_map fuel w (event\<lparr>TargetLogGroupName := name\<rparr>)"
  proof (cases "truthy (BUCKET_NAME w)")
    case True
    from tag show ?thesis
      by (simp add: handler_scheduler [OF True, where key = key and vals = vals])
  next
    case False
    then show ?thesis by (simp add: handler_no_bucket)
  qed
  assume "truthy (BUCKET_NAME w)"
  with tag show "handler ctx_map fuel w event =
             (if \<not> js_truthy key \<or> vals = [] then
                Some (Inl (InputVariableError
                  ''event must have tagKey and non-empty tagValues when using scheduler input.''), [])
              else
                (case get_resources_step fuel w key vals [] of
                   None \<Rightarrow> None
                 | Some (logGroupNames, h) \<Rightarrow>
                     ctx_map (export_item fuel w (the (BUCKET_NAME w))) (map JString logGroupNames) h))"
    by (simp add: handler_scheduler [where key = key and vals = vals])
next
  assume notarr: "tagValues event = Some v \<and> \<not> isArray (Some v)"
  then show legacy: "\<not> isSchedulerInput event"
    by (simp add: isSchedulerInput_def)
  have legacy': "\<not> isSchedulerInput (event\<lparr>tagKey := None, tagValues := None\<rparr>)"
    by (simp add: isSchedulerInput_def)
  show "handler ctx_map fuel w event =
          handler ctx_map fuel w (event\<lparr>tagKey := None, tagValues := None\<rparr>)"
  proof (cases "truthy (BUCKET_NAME w)")
    case True
    show ?thesis
      by (simp add: handler_legacy [OF True legacy] handler_legacy [OF True legacy'])
  next
    case False
    then show ?thesis by (simp add: handler_no_bucket)
  qed
  assume "truthy (BUCKET_NAME w)"
  then show "handler ctx_map fuel w event =
             (if property_truthy (TargetLogGroupName event)
              then ctx_map (export_item fuel w (the (BUCKET_NAME w))) [the (TargetLogGroupName event)] []
              else Some (Inl (InputVariableError
                     ''event input TargetLogGroupName (or tagKey/tagValues) not set.''), []))"
    using handler_legacy [OF _ legacy, of w ctx_map fuel] by simp
qed

text \<open>A run of one log group whose export completes at the first poll.\<close>

lemma string_of_nat_0: "string_of_nat 0 = ''0''"
  by (simp add: string_of_nat.simps)

lemma one_completed_export:
  assumes create: "createExportTask w h (export_command (LocalTZA w) (clock w h) bucketName name) = Some taskId"
    and taskId: "taskId \<noteq> []"
    and completed: "describe_status (describeExportTasks w
           (h @ [CreateExportTask (export_command (LocalTZA w) (clock w h) bucketName name)]) taskId)
             = ''COMPLETED''"
  shows "sequential_map (export_item (Suc fuel) w bucketName) [JString name] h =
           Some (Inr 1, h @ [CreateExportTask (export_command (LocalTZA w) (clock w h) bucketName name),
                             DescribeExportTasks taskId])"
proof -
  have "export_item (Suc fuel) w bucketName 0 (JString name) h =
          Some (Inr (), h @ [CreateExportTask (export_command (LocalTZA w) (clock w h) bucketName name),
                             DescribeExportTasks taskId])"
    unfolding export_item_def js_value.case createExportLogGroup_task [OF create taskId]
    using poll_terminal [where w = w and taskId = taskId and fuel = fuel
            and h = "h @ [CreateExportTask (export_command (LocalTZA w) (clock w h) bucketName name)]"]
          completed
    by simp
  then show ?thesis
    by (simp add: sequential_map_def)
qed

theorem input_dispatch_prefers_tag_selector_witness:
  "handler sequential_map 1
     (paged_world (Some ''archive-bucket'') [Some ''task-1''] [with_status ''COMPLETED'']
        (JString ''DailyLogExport'') [JString ''Yes'']
        [(None,
          \<lparr> ResourceTagMappingList =
              Some [Some ''arn:aws:logs:us-east-1:123456789012:log-group:/svc/app''],
            PaginationToken = None \<rparr>)])
     \<lparr> tagKey = Some (JString ''DailyLogExport''), tagValues = Some (JArray [JString ''Yes'']),
       TargetLogGroupName = Some (JString ''/legacy/group'') \<rparr> =
     Some (Inr 1,
       [GetResources
          \<lparr> ResourceTypeFilters = [''logs:log-group''], TagFilterKey = JString ''DailyLogExport'',
            TagFilterValues = [JString ''Yes''], RequestPaginationToken = None \<rparr>,
        CreateExportTask (export_command 0 1709298060000 ''archive-bucket'' ''/svc/app''),
        DescribeExportTasks ''task-1''])
   \<and> handler sequential_map 1
     (scripted_world (Some ''archive-bucket'') [Some ''task-1''] [with_status ''COMPLETED''] [])
     \<lparr> tagKey = Some JNull, tagValues = Some (JArray [JString ''Yes'']),
       TargetLogGroupName = Some (JString ''/legacy/group'') \<rparr> =
     Some (Inl (InputVariableError
        ''event must have tagKey and non-empty tagValues when using scheduler input.''), [])
   \<and> handler sequential_map 1
     (scripted_world (Some ''archive-bucket'') [Some ''task-1''] [with_status ''COMPLETED''] [])
     \<lparr> tagKey = Some (JString ''DailyLogExport''), tagValues = Some (JString ''Yes''),
       TargetLogGroupName = Some (JString ''/legacy/group'') \<rparr> =
     Some (Inr 1,
       [CreateExportTask (export_command 0 1709298060000 ''archive-bucket'' ''/legacy/group''),
        DescribeExportTasks ''task-1''])
   \<and> handler sequential_map 1
     (scripted_world (Some ''archive-bucket'') [Some ''task-1''] [with_status ''COMPLETED''] [])
     \<lparr> tagKey = Some (JString ''DailyLogExport''), tagValues = Some (JString ''Yes''),
       TargetLogGroupName = None \<rparr> =
     Some (Inl (InputVariableError
        ''event input TargetLogGroupName (or tagKey/tagValues) not set.''), [])"
proof (intro conjI)
  let ?p = "\<lparr> ResourceTagMappingList =
              Some [Some ''arn:aws:logs:us-east-1:123456789012:log-group:/svc/app''],
            PaginationToken = None \<rparr>"
  let ?w = "paged_world (Some ''archive-bucket'') [Some ''task-1''] [with_status ''COMPLETED'']
              (JString ''DailyLogExport'') [JString ''Yes''] [(None, ?p)]"
  let ?v = "scripted_world (Some ''archive-bucket'') [Some ''task-1''] [with_status ''COMPLETED''] []"
  let ?ev1 = "\<lparr> tagKey = Some (JString ''DailyLogExport''), tagValues = Some (JArray [JString ''Yes'']),
       TargetLogGroupName = Some (JString ''/legacy/group'') \<rparr>"
  let ?ev0 = "\<lparr> tagKey = Some JNull, tagValues = Some (JArray [JString ''Yes'']),
       TargetLogGroupName = Some (JString ''/legacy/group'') \<rparr>"
  let ?ev2 = "\<lparr> tagKey = Some (JString ''DailyLogExport''), tagValues = Some (JString ''Yes''),
       TargetLogGroupName = Some (JString ''/legacy/group'') \<rparr>"
  let ?ev3 = "\<lparr> tagKey = Some (JString ''DailyLogExport''), tagValues = Some (JString ''Yes''),
       TargetLogGroupName = None \<rparr>"
  let ?g = "GetResources
          \<lparr> ResourceTypeFilters = [''logs:log-group''], TagFilterKey = JString ''DailyLogExport'',
            TagFilterValues = [JString ''Yes''], RequestPaginationToken = None \<rparr>"
  have step: "get_resources_step 1 ?w (JString ''DailyLogExport'') [JString ''Yes''] []
                = Some ([''/svc/app''], [?g])"
    unfolding get_resources_step_def One_nat_def get_resources_loop_Suc
    by (simp add: paged_world_simps page_arns_def getLogGroupNameFromArn_def)
  have export1: "sequential_map (export_item 1 ?w ''archive-bucket'') [JString ''/svc/app''] [?g] =
      Some (Inr 1, [?g, CreateExportTask (export_command 0 1709298060000 ''archive-bucket'' ''/svc/app''),
                    DescribeExportTasks ''task-1''])"
    using one_completed_export [where w = ?w and h = "[?g]" and bucketName = "''archive-bucket''"
        and name = "''/svc/app''" and taskId = "''task-1''" and fuel = 0]
    by (simp add: paged_world_simps with_status_def describe_status_def)
  have export2: "sequential_map (export_item 1 ?v ''archive-bucket'') [JString ''/legacy/group''] [] =
      Some (Inr 1, [CreateExportTask (export_command 0 1709298060000 ''archive-bucket'' ''/legacy/group''),
                    DescribeExportTasks ''task-1''])"
    using one_completed_export [where w = ?v and h = "[]" and bucketName = "''archive-bucket''"
        and name = "''/legacy/group''" and taskId = "''task-1''" and fuel = 0]
    by (simp add: scripted_world_simps with_status_def describe_status_def)
  have bucket_w: "truthy (BUCKET_NAME ?w)" and name_w: "the (BUCKET_NAME ?w) = ''archive-bucket''"
    by (simp_all add: paged_world_simps)
  have bucket_v: "truthy (BUCKET_NAME ?v)" and name_v: "the (BUCKET_NAME ?v) = ''archive-bucket''"
    by (simp_all add: scripted_world_simps)
  have tag1: "tagKey ?ev1 = Some (JString ''DailyLogExport'')
                \<and> tagValues ?ev1 = Some (JArray [JString ''Yes''])"
    by simp
  have "handler sequential_map 1 ?w ?ev1 =
          (if \<not> js_truthy (JString ''DailyLogExport'') \<or> [JString ''Yes''] = [] then
             Some (Inl (InputVariableError
               ''event must have tagKey and non-empty tagValues when using scheduler input.''), [])
           else
             (case get_resources_step 1 ?w (JString ''DailyLogExport'') [JString ''Yes''] [] of
                None \<Rightarrow> None
              | Some (logGroupNames, h) \<Rightarrow>
                  sequential_map (export_item 1 ?w (the (BUCKET_NAME ?w))) (map JString logGroupNames) h))"
    by (rule input_dispatch_prefers_tag_selector
               [THEN conjunct1, THEN mp, OF tag1, THEN conjunct2, THEN conjunct2, THEN mp, OF bucket_w])
  then show "handler sequential_map 1 ?w ?ev1 =
     Some (Inr 1,
       [?g, CreateExportTask (export_command 0 1709298060000 ''archive-bucket'' ''/svc/app''),
        DescribeExportTasks ''task-1''])"
    by (simp add: step [unfolded One_nat_def] name_w export1 [unfolded One_nat_def])
  have tag0: "tagKey ?ev0 = Some JNull \<and> tagValues ?ev0 = Some (JArray [JString ''Yes''])"
    by simp
  have "handler sequential_map 1 ?v ?ev0 =
          (if \<not> js_truthy JNull \<or> [JString ''Yes''] = [] then
             Some (Inl (InputVariableError
               ''event must have tagKey and non-empty tagValues when using scheduler input.''), [])
           else
             (case get_resources_step 1 ?v JNull [JString ''Yes''] [] of
                None \<Rightarrow> None
              | Some (logGroupNames, h) \<Rightarrow>
                  sequential_map (export_item 1 ?v (the (BUCKET_NAME ?v))) (map JString logGroupNames) h))"
    by (rule input_dispatch_prefers_tag_selector
               [THEN conjunct1, THEN mp, OF tag0, THEN conjunct2, THEN conjunct2, THEN mp, OF bucket_v])
  then show "handler sequential_map 1 ?v ?ev0 =
     Some (Inl (InputVariableError
        ''event must have tagKey and non-empty tagValues when using scheduler input.''), [])"
    by simp
  have arr2: "tagValues ?ev2 = Some (JString ''Yes'') \<and> \<not> isArray (Some (JString ''Yes''))"
    and arr3: "tagValues ?ev3 = Some (JString ''Yes'') \<and> \<not> isArray (Some (JString ''Yes''))"
    by simp_all
  have "handler sequential_map 1 ?v ?ev2 =
          (if property_truthy (TargetLogGroupName ?ev2)
           then sequential_map (export_item 1 ?v (the (BUCKET_NAME ?v))) [the (TargetLogGroupName ?ev2)] []
           else Some (Inl (InputVariableError
                  ''event input TargetLogGroupName (or tagKey/tagValues) not set.''), []))"
    by (rule input_dispatch_prefers_tag_selector
               [THEN conjunct2, THEN mp, OF arr2, THEN conjunct2, THEN conjunct2, THEN mp, OF bucket_v])
  then show "handler sequential_map 1 ?v ?ev2 =
     Some (Inr 1,
       [CreateExportTask (export_command 0 1709298060000 ''archive-bucket'' ''/legacy/group''),
        DescribeExportTasks ''task-1''])"
    by (simp add: name_v export2 [unfolded One_nat_def])
  have "handler sequential_map 1 ?v ?ev3 =
          (if property_truthy (TargetLogGroupName ?ev3)
           then sequential_map (export_item 1 ?v (the (BUCKET_NAME ?v))) [the (TargetLogGroupName ?ev3)] []
           else Some (Inl (InputVariableError
                  ''event input TargetLogGroupName (or tagKey/tagValues) not set.''), []))"
    by (rule input_dispatch_prefers_tag_selector
               [THEN conjunct2, THEN mp, OF arr3, THEN conjunct2, THEN conjunct2, THEN mp, OF bucket_v])
  then show "handler sequential_map 1 ?v ?ev3 =
     Some (Inl (InputVariableError
        ''event input TargetLogGroupName (or tagKey/tagValues) not set.''), [])"
    by simp
qed

end
